theory Spec2Isabelle
  imports
    Main
    "HOL-Library.Char_ord"
    "HOL-Library.List_Lexorder"
    "HOL-Library.Sublist"
begin

section \<open>Errors\<close>

text \<open>
  Every Go \<^verbatim>\<open>error\<close> value, panic and process exit of the modelled functions is a
  value of this type.  \<open>NotFound\<close> stands for the errors on which
  \<^verbatim>\<open>k8serrors.IsNotFound\<close> holds, \<open>Other\<close> for an opaque error handed back by a
  collaborator (API client, registry, HTTP client, templating engine).  The remaining
  constructors are the errors the modelled code creates itself; \<open>Exit\<close> is the process
  termination performed by \<^verbatim>\<open>exit.OnError\<close>.
\<close>

datatype error =
    NotFound string
  | Other string
  | BadStatus nat
  | VersionNotFound string
  | FormatError string
  | NoContainerData
  | DTKKernelNotFound string string
  | Exit error
  | Panic

fun IsNotFound :: "error \<Rightarrow> bool" where
  "IsNotFound (NotFound _) = True"
| "IsNotFound _ = False"

section \<open>Reconciliation of a chart (controllers/specialresourcemodule.go)\<close>

text \<open>
  \<^verbatim>\<open>chart.File\<close> and \<^verbatim>\<open>chart.Chart\<close> of the templating library, reduced to the fields
  \<^verbatim>\<open>reconcileChart\<close> reads and writes.  The type \<open>'v\<close> is the type of a value set
  (\<^verbatim>\<open>map[string]interface{}\<close>).
\<close>

record chart_File =
  Name :: string
  Data :: string

record 'v chart =
  Templates :: "chart_File list"
  Values :: 'v

text \<open>
  The collaborators of \<^verbatim>\<open>reconcileChart\<close>.  \<open>Helmer_Load\<close> is the outcome of
  \<^verbatim>\<open>r.Helmer.Load(srm.Spec.Chart)\<close>; \<open>Assets_ValidStateName\<close> is the naming
  convention of state units (\<^verbatim>\<open>r.Assets.ValidStateName\<close>, whose body is not part of the
  sources at hand, hence a parameter); \<open>CoalesceValues\<close> and \<open>ToUnstructured\<close> are the two
  library conversions.  \<open>Helmer_Run\<close> is the apply of one working bundle: its first
  argument is the list of working bundles already handed to it during the same pass, so
  that the outcome of an apply may depend on what was applied before.
\<close>

record ('v, 'm) helm_env =
  Helmer_Load :: "error + 'v chart"
  Assets_ValidStateName :: "string \<Rightarrow> bool"
  CoalesceValues :: "'v chart \<Rightarrow> 'v \<Rightarrow> error + 'v"
  ToUnstructured :: "'m \<Rightarrow> error + 'v"
  Helmer_Run :: "'v chart list \<Rightarrow> 'v chart \<Rightarrow> error option"

text \<open>
  The body of the second loop of \<^verbatim>\<open>reconcileChart\<close> up to the apply: the working
  bundle \<open>step\<close> is the \<open>nostate\<close> chart with the one state template appended, and its
  values are coalesced first with the values of the custom resource, then with the
  converted metadata.  Each of the three conversions can fail.
\<close>

definition prepareStep ::
  "('v, 'm) helm_env \<Rightarrow> 'v \<Rightarrow> 'm \<Rightarrow> 'v chart \<Rightarrow> chart_File \<Rightarrow> error + 'v chart" where
  "prepareStep E specSet metadata nostate stateYAML =
     (let step = nostate\<lparr>Templates := Templates nostate @ [stateYAML]\<rparr> in
      case CoalesceValues E step specSet of
        Inl err \<Rightarrow> Inl err
      | Inr v1 \<Rightarrow>
          (case ToUnstructured E metadata of
             Inl err \<Rightarrow> Inl err
           | Inr rinfo \<Rightarrow>
               (case CoalesceValues E (step\<lparr>Values := v1\<rparr>) rinfo of
                  Inl err \<Rightarrow> Inl err
                | Inr v2 \<Rightarrow> Inr (step\<lparr>Values := v2\<rparr>))))"

text \<open>
  The second loop of \<^verbatim>\<open>reconcileChart\<close> (\<^verbatim>\<open>for _, stateYAML := range stateYAMLS\<close>).
  The triple returned is the Go pair \<^verbatim>\<open>([]string, error)\<close> followed by the trace of
  the working bundles passed to \<^verbatim>\<open>Helmer.Run\<close>, oldest first.  A nil slice and an empty
  slice are both \<open>[]\<close>; the caller only takes the length of the slice and stores it.
  Every error return hands back \<open>result\<close>; when the loop runs to its end the function
  returns \<^verbatim>\<open>nil, nil\<close>.
\<close>

fun applyStates ::
  "('v, 'm) helm_env \<Rightarrow> 'v \<Rightarrow> 'm \<Rightarrow> 'v chart \<Rightarrow> string list \<Rightarrow> 'v chart list \<Rightarrow>
   chart_File list \<Rightarrow> string list \<times> error option \<times> 'v chart list" where
  "applyStates E specSet metadata nostate result calls [] = ([], None, calls)"
| "applyStates E specSet metadata nostate result calls (stateYAML # rest) =
     (case prepareStep E specSet metadata nostate stateYAML of
        Inl err \<Rightarrow> (result, Some err, calls)
      | Inr step \<Rightarrow>
          (case Helmer_Run E calls step of
             Some err \<Rightarrow> (result, Some err, calls @ [step])
           | None \<Rightarrow>
               applyStates E specSet metadata nostate (result @ [Name stateYAML])
                 (calls @ [step]) rest))"

text \<open>
  The first loop partitions the templates of the loaded chart: a template whose name is a
  state name goes to \<open>stateYAMLS\<close> when its name is not a key of \<open>reconciledInputMap\<close>
  and contributes its name to \<open>result\<close> otherwise; every other template goes to the
  \<open>nostate\<close> chart.  All three lists keep the order of \<^verbatim>\<open>c.Templates\<close>.
\<close>

definition stateYAMLS :: "(string \<Rightarrow> bool) \<Rightarrow> string list \<Rightarrow> chart_File list \<Rightarrow> chart_File list" where
  "stateYAMLS valid reconciledInput ts =
     filter (\<lambda>t. valid (Name t) \<and> Name t \<notin> set reconciledInput) ts"

definition alreadyReconciled :: "(string \<Rightarrow> bool) \<Rightarrow> string list \<Rightarrow> chart_File list \<Rightarrow> string list" where
  "alreadyReconciled valid reconciledInput ts =
     map Name (filter (\<lambda>t. valid (Name t) \<and> Name t \<in> set reconciledInput) ts)"

definition nostateTemplates :: "(string \<Rightarrow> bool) \<Rightarrow> chart_File list \<Rightarrow> chart_File list" where
  "nostateTemplates valid ts = filter (\<lambda>t. \<not> valid (Name t)) ts"

text \<open>
  \<^verbatim>\<open>sort.Slice\<close> with \<^verbatim>\<open>Name <\<close> is \<open>sort_key Name\<close>: Go compares strings bytewise,
  which is the lexicographic order of \<open>char list\<close> over the order of character codes.
  \<^verbatim>\<open>sort.Slice\<close> does not promise stability, \<open>sort_key\<close> is stable; the two agree on
  the list of names, and on the list itself when the names are distinct.
\<close>

definition reconcileChart ::
  "('v, 'm) helm_env \<Rightarrow> 'v \<Rightarrow> 'm \<Rightarrow> string list \<Rightarrow> string list \<times> error option \<times> 'v chart list" where
  "reconcileChart E specSet metadata reconciledInput =
     (case Helmer_Load E of
        Inl err \<Rightarrow> ([], Some err, [])
      | Inr c \<Rightarrow>
          applyStates E specSet metadata
            (c\<lparr>Templates := nostateTemplates (Assets_ValidStateName E) (Templates c)\<rparr>)
            (alreadyReconciled (Assets_ValidStateName E) reconciledInput (Templates c))
            []
            (sort_key Name (stateYAMLS (Assets_ValidStateName E) reconciledInput (Templates c))))"

text \<open>
  The status the caller \<^verbatim>\<open>Reconcile\<close> stores for a version after the call
  (\<^verbatim>\<open>SpecialResourceModuleVersionStatus\<close>): the returned list, and \<open>Complete\<close> exactly
  when that list is empty.
\<close>

record versionStatus =
  ReconciledTemplates :: "string list"
  Complete :: bool

definition statusOf :: "string list \<Rightarrow> versionStatus" where
  "statusOf reconciledList =
     \<lparr>ReconciledTemplates = reconciledList, Complete = (length reconciledList = 0)\<rparr>"

text \<open>
  A chart of four state units and one regular template, given unsorted, with
  collaborators that cannot fail except for the apply of the units named in \<open>bad\<close>.
  State names are taken to be the names that start with a digit.
\<close>

definition unitsChart :: "unit chart" where
  "unitsChart =
     \<lparr>Templates = [\<lparr>Name = ''20-b'', Data = ''b''\<rparr>, \<lparr>Name = ''10-a'', Data = ''a''\<rparr>,
                   \<lparr>Name = ''common'', Data = ''r''\<rparr>, \<lparr>Name = ''40-d'', Data = ''d''\<rparr>,
                   \<lparr>Name = ''30-c'', Data = ''c''\<rparr>],
      Values = ()\<rparr>"

definition unitsEnv :: "string list \<Rightarrow> (unit, unit) helm_env" where
  "unitsEnv bad =
     \<lparr>Helmer_Load = Inr unitsChart,
      Assets_ValidStateName = (\<lambda>n. n \<noteq> [] \<and> hd n \<in> set ''0123456789''),
      CoalesceValues = (\<lambda>c v. Inr v),
      ToUnstructured = (\<lambda>m. Inr ()),
      Helmer_Run = (\<lambda>calls c. if set (map Name (Templates c)) \<inter> set bad = {} then None
                                else Some (Other ''apply failed''))\<rparr>"

section \<open>Correlation of a toolkit release with the node map (pkg/upgrade/upgrade.go)\<close>

text \<open>
  \<^verbatim>\<open>registry.DriverToolkitEntry\<close> (its declaration is not among the sources; the fields
  are the ones the code reads and writes) and \<^verbatim>\<open>NodeVersion\<close>.  Field names that occur
  in more than one Go struct carry a prefix here.
\<close>

record DriverToolkitEntry =
  ImageURL :: string
  KernelFullVersion :: string
  RTKernelFullVersion :: string
  OSVersion :: string

record NodeVersion =
  nv_OSVersion :: string
  OSMajor :: string
  OSMajorMinor :: string
  nv_ClusterVersion :: string
  DriverToolkit :: DriverToolkitEntry

text \<open>\<^verbatim>\<open>strings.Contains(s, substr)\<close>: \<open>substr\<close> occurs in \<open>s\<close> as a contiguous run of bytes.\<close>

fun strings_Contains :: "string \<Rightarrow> string \<Rightarrow> bool" where
  "strings_Contains [] substr = (substr = [])"
| "strings_Contains (c # s) substr = (prefix substr (c # s) \<or> strings_Contains s substr)"

text \<open>
  Modelled from the spec: \<^verbatim>\<open>exit.OnError\<close> (package \<^verbatim>\<open>pkg/exit\<close>, not among the
  sources).  The specification calls the mismatch it is used for fatal (abort, no silent
  reconciliation): on a non-nil error the process ends, which is the result
  \<open>Inl (Exit err)\<close>; on nil the caller goes on.
\<close>

fun exit_OnError :: "error option \<Rightarrow> error + unit" where
  "exit_OnError None = Inr ()"
| "exit_OnError (Some err) = Inl (Exit err)"

text \<open>
  The head of \<^verbatim>\<open>UpdateInfo\<close>: \<^verbatim>\<open>runtime.GOARCH\<close> is the parameter \<open>goarch\<close>;
  \<open>amd64\<close> is renamed, and the suffix is added to both version strings when the
  kernel version does not contain the architecture name.
\<close>

definition runningArch :: "string \<Rightarrow> string" where
  "runningArch goarch = (if goarch = ''amd64'' then ''x86_64'' else goarch)"

definition normalizeArch :: "string \<Rightarrow> DriverToolkitEntry \<Rightarrow> DriverToolkitEntry" where
  "normalizeArch goarch dtk =
     (if \<not> strings_Contains (KernelFullVersion dtk) (runningArch goarch)
      then dtk\<lparr>KernelFullVersion := KernelFullVersion dtk @ ''.'' @ runningArch goarch,
               RTKernelFullVersion := RTKernelFullVersion dtk @ ''.'' @ runningArch goarch\<rparr>
      else dtk)"

text \<open>
  The two blocks \<^verbatim>\<open>if _, ok := info[key]; ok { ... }\<close> of \<^verbatim>\<open>UpdateInfo\<close>, which differ
  in the key only.  The result carries the updated map and the flag \<open>match\<close>.
\<close>

definition matchKey ::
  "(string \<rightharpoonup> NodeVersion) \<Rightarrow> bool \<Rightarrow> string \<Rightarrow> string \<Rightarrow> DriverToolkitEntry \<Rightarrow>
   error + ((string \<rightharpoonup> NodeVersion) \<times> bool)" where
  "matchKey info match key osDTK dtk =
     (case info key of
        None \<Rightarrow> Inr (info, match)
      | Some nodeVersion \<Rightarrow>
          (case exit_OnError
                  (if nv_OSVersion nodeVersion \<noteq> osDTK
                   then Some (Other (''OSVersion mismatch NFD: '' @ nv_OSVersion nodeVersion
                                       @ '' vs. DTK: '' @ osDTK))
                   else None) of
             Inl e \<Rightarrow> Inl e
           | Inr _ \<Rightarrow>
               Inr (info(key \<mapsto> nodeVersion\<lparr>nv_OSVersion := OSVersion dtk, DriverToolkit := dtk\<rparr>),
                    True)))"

definition UpdateInfo ::
  "string \<Rightarrow> (string \<rightharpoonup> NodeVersion) \<Rightarrow> DriverToolkitEntry \<Rightarrow> string \<Rightarrow>
   error + (string \<rightharpoonup> NodeVersion)" where
  "UpdateInfo goarch info dtk0 imageURL =
     (let osDTK = OSVersion dtk0;
          dtk = normalizeArch goarch (dtk0\<lparr>ImageURL := imageURL\<rparr>)
      in case matchKey info False (KernelFullVersion dtk) osDTK dtk of
           Inl e \<Rightarrow> Inl e
         | Inr (info1, match1) \<Rightarrow>
             (case matchKey info1 match1 (RTKernelFullVersion dtk) osDTK dtk of
                Inl e \<Rightarrow> Inl e
              | Inr (info2, match2) \<Rightarrow>
                  if \<not> match2
                  then Inl (DTKKernelNotFound (KernelFullVersion dtk) (RTKernelFullVersion dtk))
                  else Inr info2))"

text \<open>A node map with one node and a toolkit release for its kernel.\<close>

definition node8 :: NodeVersion where
  "node8 = \<lparr>nv_OSVersion = ''8.4'', OSMajor = ''rhel8'', OSMajorMinor = ''rhel8.4'',
            nv_ClusterVersion = ''4.8'',
            DriverToolkit = \<lparr>ImageURL = [], KernelFullVersion = [], RTKernelFullVersion = [],
                              OSVersion = []\<rparr>\<rparr>"

definition nodes8 :: "string \<rightharpoonup> NodeVersion" where
  "nodes8 = [''4.18.0-305.el8.x86_64'' \<mapsto> node8]"

definition dtk8 :: "string \<Rightarrow> DriverToolkitEntry" where
  "dtk8 os = \<lparr>ImageURL = [], KernelFullVersion = ''4.18.0-305.el8'',
              RTKernelFullVersion = ''4.18.0-305.rt7.72.el8'', OSVersion = os\<rparr>"

section \<open>Preflight check (pkg/preflight/preflight.go)\<close>

text \<open>
  The registry collaborator (\<^verbatim>\<open>registry.Registry\<close>, an interface whose implementation
  is not among the sources) as a record of functions; \<open>'l\<close> is the type of a layer
  handle, repositories, digests and authentication data are strings.  The first two
  fields are used by the version resolver, the last three by the preflight check.
\<close>

record 'l registry =
  LastLayer :: "string \<Rightarrow> error + 'l"
  ReleaseManifests :: "'l \<Rightarrow> error + (string \<times> string)"
  ExtractToolkitRelease :: "'l \<Rightarrow> error + DriverToolkitEntry"
  GetLayersDigests :: "string \<Rightarrow> error + (string \<times> string list \<times> string)"
  GetLayerByDigest :: "string \<Rightarrow> string \<Rightarrow> string \<Rightarrow> error + 'l"

text \<open>
  A rendered object (\<^verbatim>\<open>unstructured.Unstructured\<close>) with its kind and its content, and
  the part of a \<^verbatim>\<open>DaemonSet\<close> the check reads: the containers of the pod template
  (\<^verbatim>\<open>ds.Spec.Template.Spec.Containers\<close>).
\<close>

record container =
  ContainerName :: string
  Image :: string

record daemonSet =
  Containers :: "container list"

record 'c unstructured =
  Kind :: string
  Object :: 'c

record ('c, 'l) preflight =
  registryAPI :: "'l registry"
  GetObjectsFromYAML :: "string \<Rightarrow> error + 'c unstructured list"
  FromUnstructured :: "'c \<Rightarrow> error + daemonSet"

text \<open>The registry accesses made by a check, in the order in which they are made.\<close>

datatype registry_call =
    GetLayersDigestsCall string
  | GetLayerByDigestCall string string

text \<open>
  The loop \<^verbatim>\<open>for i := len(digests) - 1; i >= 0; i--\<close> of
  \<^verbatim>\<open>daemonSetPreflightCheck\<close>; the list argument holds the digests still to visit, in
  visiting order (the caller passes \<open>rev digests\<close>).  Results are the Go pair
  \<^verbatim>\<open>(bool, error)\<close> followed by the registry accesses made.
\<close>

fun scanLayers ::
  "'l registry \<Rightarrow> string \<Rightarrow> string \<Rightarrow> string \<Rightarrow> string list \<Rightarrow>
   bool \<times> error option \<times> registry_call list" where
  "scanLayers R upgradeKernelVersion repo auth [] = (False, None, [])"
| "scanLayers R upgradeKernelVersion repo auth (digest # older) =
     (case GetLayerByDigest R repo digest auth of
        Inl err \<Rightarrow> (False, None, [GetLayerByDigestCall repo digest])
      | Inr layer \<Rightarrow>
          (case ExtractToolkitRelease R layer of
             Inl err \<Rightarrow>
               (case scanLayers R upgradeKernelVersion repo auth older of
                  (verified, e, calls) \<Rightarrow> (verified, e, GetLayerByDigestCall repo digest # calls))
           | Inr dtk \<Rightarrow>
               if KernelFullVersion dtk \<noteq> upgradeKernelVersion
               then (False, None, [GetLayerByDigestCall repo digest])
               else (True, None, [GetLayerByDigestCall repo digest])))"

definition daemonSetPreflightCheck ::
  "('c, 'l) preflight \<Rightarrow> 'c unstructured \<Rightarrow> string \<Rightarrow> bool \<times> error option \<times> registry_call list" where
  "daemonSetPreflightCheck p obj upgradeKernelVersion =
     (case FromUnstructured p (Object obj) of
        Inl err \<Rightarrow> (False, Some err, [])
      | Inr ds \<Rightarrow>
          (case Containers ds of
             [] \<Rightarrow> (False, Some NoContainerData, [])
           | c0 # _ \<Rightarrow>
               (case GetLayersDigests (registryAPI p) (Image c0) of
                  Inl err \<Rightarrow> (False, None, [GetLayersDigestsCall (Image c0)])
                | Inr (repo, digests, auth) \<Rightarrow>
                    (case scanLayers (registryAPI p) upgradeKernelVersion repo auth (rev digests) of
                       (verified, e, calls) \<Rightarrow>
                         (verified, e, GetLayersDigestsCall (Image c0) # calls)))))"

text \<open>
  The loop of \<^verbatim>\<open>handleYAMLsCheck\<close> over the rendered objects (\<open>verified\<close> starts as
  true and both kinds end the loop), and the function itself.
\<close>

fun checkObjects ::
  "('c, 'l) preflight \<Rightarrow> string \<Rightarrow> 'c unstructured list \<Rightarrow> bool \<times> error option \<times> registry_call list" where
  "checkObjects p upgradeKernelVersion [] = (True, None, [])"
| "checkObjects p upgradeKernelVersion (obj # objs) =
     (if Kind obj = ''BuildConfig'' then (True, None, [])
      else if Kind obj = ''DaemonSet'' then
        (case daemonSetPreflightCheck p obj upgradeKernelVersion of
           (verified, Some err, calls) \<Rightarrow> (False, Some err, calls)
         | (verified, None, calls) \<Rightarrow> (verified, None, calls))
      else checkObjects p upgradeKernelVersion objs)"

definition handleYAMLsCheck ::
  "('c, 'l) preflight \<Rightarrow> string \<Rightarrow> string \<Rightarrow> bool \<times> error option \<times> registry_call list" where
  "handleYAMLsCheck p yamlsList upgradeKernelVersion =
     (case GetObjectsFromYAML p yamlsList of
        Inl err \<Rightarrow> (False, Some err, [])
      | Inr objList \<Rightarrow> checkObjects p upgradeKernelVersion objList)"

text \<open>
  A registry for the examples.  A layer is \<open>Some\<close> toolkit release or \<open>None\<close> (no
  toolkit metadata).  Image \<open>img-ok\<close> has three layers with the metadata in the middle
  one, and its oldest layer cannot be fetched; \<open>img-broken\<close> has a layer without
  metadata on top of a layer that cannot be fetched; no other image can be reached.
\<close>

definition exampleRegistry :: "DriverToolkitEntry option registry" where
  "exampleRegistry =
     \<lparr>LastLayer = (\<lambda>image. Inl (Other ''no such image'')),
      ReleaseManifests = (\<lambda>layer. Inl (Other ''no release manifest'')),
      ExtractToolkitRelease =
        (\<lambda>layer. case layer of None \<Rightarrow> Inl (Other ''no toolkit metadata'') | Some dtk \<Rightarrow> Inr dtk),
      GetLayersDigests =
        (\<lambda>image. if image = ''img-ok'' then Inr (''repo'', [''d0'', ''d1'', ''d2''], ''auth'')
                 else if image = ''img-broken'' then Inr (''repo'', [''d0'', ''d2''], ''auth'')
                 else Inl (Other ''registry unreachable'')),
      GetLayerByDigest =
        (\<lambda>repo digest auth.
           if digest = ''d2'' then Inr None
           else if digest = ''d1'' then Inr (Some (dtk8 ''8.4''))
           else Inl (Other ''layer fetch failed''))\<rparr>"

definition dsObject :: "string list \<Rightarrow> daemonSet unstructured" where
  "dsObject images =
     \<lparr>Kind = ''DaemonSet'',
      Object = \<lparr>Containers = map (\<lambda>i. \<lparr>ContainerName = ''c'', Image = i\<rparr>) images\<rparr>\<rparr>"

definition otherObject :: "string \<Rightarrow> daemonSet unstructured" where
  "otherObject kind = \<lparr>Kind = kind, Object = \<lparr>Containers = []\<rparr>\<rparr>"

definition examplePreflight :: "(daemonSet, DriverToolkitEntry option) preflight" where
  "examplePreflight =
     \<lparr>registryAPI = exampleRegistry,
      GetObjectsFromYAML =
        (\<lambda>yamls.
           if yamls = ''build-first''
           then Inr [otherObject ''ConfigMap'', otherObject ''BuildConfig'', dsObject [''img-ok'']]
           else if yamls = ''daemonset-first''
           then Inr [otherObject ''ConfigMap'', dsObject [''img-ok''], otherObject ''BuildConfig'']
           else Inl (Other ''not a list of objects'')),
      FromUnstructured = Inr\<rparr>"

section \<open>Version resolution (controllers/specialresourcemodule.go)\<close>

subsection \<open>The version pattern\<close>

text \<open>
  The constant \<^verbatim>\<open>semver\<close> is the anchored pattern of semantic versions: three numeric
  identifiers separated by dots; then, optionally, a hyphen and dot-separated
  pre-release identifiers; then, optionally, a plus sign and dot-separated build
  identifiers.  A numeric identifier is \<^verbatim>\<open>0|[1-9]\d*\<close>; a pre-release identifier is
  numeric or \<^verbatim>\<open>\d*[a-zA-Z-][0-9a-zA-Z-]*\<close>, that is, letters, digits and hyphens with
  at least one character that is not a digit; a build identifier is
  \<^verbatim>\<open>[0-9a-zA-Z-]+\<close>.  Since no identifier holds a plus sign and the core holds no
  hyphen, the first plus sign starts the build part and the first hyphen before it
  starts the pre-release part.
\<close>

definition isDigit :: "char \<Rightarrow> bool" where
  "isDigit c = (c \<in> set ''0123456789'')"

definition isIdentChar :: "char \<Rightarrow> bool" where
  "isIdentChar c =
     (c \<in> set ''0123456789abcdefghijklmnopqrstuvwxyzABCDEFGHIJKLMNOPQRSTUVWXYZ-'')"

definition numericIdentifier :: "string \<Rightarrow> bool" where
  "numericIdentifier s =
     (s = ''0'' \<or> (s \<noteq> [] \<and> hd s \<in> set ''123456789'' \<and> list_all isDigit (tl s)))"

definition prereleaseIdentifier :: "string \<Rightarrow> bool" where
  "prereleaseIdentifier s =
     (numericIdentifier s \<or> (list_all isIdentChar s \<and> \<not> list_all isDigit s))"

definition buildIdentifier :: "string \<Rightarrow> bool" where
  "buildIdentifier s = (s \<noteq> [] \<and> list_all isIdentChar s)"

text \<open>\<open>cutAt sep s\<close> cuts \<open>s\<close> at the first \<open>sep\<close>; \<open>splitOn sep [] s\<close> cuts it at
  every \<open>sep\<close>.\<close>

definition cutAt :: "char \<Rightarrow> string \<Rightarrow> string \<times> string option" where
  "cutAt sep s =
     (takeWhile (\<lambda>c. c \<noteq> sep) s,
      case dropWhile (\<lambda>c. c \<noteq> sep) s of [] \<Rightarrow> None | _ # r \<Rightarrow> Some r)"

fun splitOn :: "char \<Rightarrow> string \<Rightarrow> string \<Rightarrow> string list" where
  "splitOn sep cur [] = [cur]"
| "splitOn sep cur (c # s) =
     (if c = sep then cur # splitOn sep [] s else splitOn sep (cur @ [c]) s)"

text \<open>
  \<^verbatim>\<open>versionRegex.FindStringSubmatch\<close>: \<open>None\<close> is the nil slice of a string that does
  not match; otherwise the whole match (the pattern is anchored, so it is the entry) and
  the five groups, an absent optional group being the empty string.
\<close>

definition versionRegex_FindStringSubmatch :: "string \<Rightarrow> string list option" where
  "versionRegex_FindStringSubmatch entry =
     (case cutAt CHR ''+'' entry of (main, build) \<Rightarrow>
      case cutAt CHR ''-'' main of (core, pre) \<Rightarrow>
      case splitOn CHR ''.'' [] core of
        [major, minor, patch] \<Rightarrow>
          if numericIdentifier major \<and> numericIdentifier minor \<and> numericIdentifier patch
             \<and> (case pre of None \<Rightarrow> True
                 | Some p \<Rightarrow> list_all prereleaseIdentifier (splitOn CHR ''.'' [] p))
             \<and> (case build of None \<Rightarrow> True
                 | Some b \<Rightarrow> list_all buildIdentifier (splitOn CHR ''.'' [] b))
          then Some [entry, major, minor, patch,
                     (case pre of None \<Rightarrow> [] | Some p \<Rightarrow> p),
                     (case build of None \<Rightarrow> [] | Some b \<Rightarrow> b)]
          else None
      | _ \<Rightarrow> None)"

definition versionRegex_MatchString :: "string \<Rightarrow> bool" where
  "versionRegex_MatchString s = (versionRegex_FindStringSubmatch s \<noteq> None)"

subsection \<open>The upgrade graph\<close>

text \<open>
  The HTTP client and the JSON decoder.  \<open>client_Do\<close> takes the value of the
  \<^verbatim>\<open>channel\<close> query parameter, the only part of the request that varies, and stands
  for building the request and sending it (either can return an error); the body of a
  response is the outcome of reading it to the end.
\<close>

record versionNode =
  Version :: string
  Payload :: string

record http_Response =
  StatusCode :: nat
  Body :: "error + string"

record http_env =
  client_Do :: "string \<Rightarrow> error + http_Response"
  json_Unmarshal :: "string \<Rightarrow> error + versionNode list"

text \<open>The closure called once per stream, up to the decoding of the graph.\<close>

definition queryChannel :: "http_env \<Rightarrow> string \<Rightarrow> error + versionNode list" where
  "queryChannel H channel =
     (case client_Do H channel of
        Inl err \<Rightarrow> Inl err
      | Inr resp \<Rightarrow>
          if StatusCode resp \<noteq> 200 then Inl (BadStatus (StatusCode resp))
          else (case Body resp of
                  Inl err \<Rightarrow> Inl err
                | Inr data \<Rightarrow> json_Unmarshal H data))"

text \<open>
  The loop over the nodes of one graph: the first node with the full version and a
  non-empty payload overwrites \<open>imageURL\<close> and ends this loop only.
\<close>

definition scanNodes :: "string \<Rightarrow> versionNode list \<Rightarrow> string \<Rightarrow> string" where
  "scanNodes full nodes imageURL =
     (case find (\<lambda>version. Version version = full \<and> length (Payload version) > 0) nodes of
        Some version \<Rightarrow> Payload version
      | None \<Rightarrow> imageURL)"

text \<open>
  The loop over the streams.  The result is paired with the channels queried, in order.
\<close>

fun queryStreams ::
  "http_env \<Rightarrow> string \<Rightarrow> string \<Rightarrow> string \<Rightarrow> string \<Rightarrow> string list \<Rightarrow>
   (error + string) \<times> string list" where
  "queryStreams H full major minor imageURL [] = (Inr imageURL, [])"
| "queryStreams H full major minor imageURL (stream # rest) =
     (case queryChannel H (stream @ ''-'' @ major @ ''.'' @ minor) of
        Inl err \<Rightarrow> (Inl err, [stream @ ''-'' @ major @ ''.'' @ minor])
      | Inr nodes \<Rightarrow>
          (case queryStreams H full major minor (scanNodes full nodes imageURL) rest of
             (r, queried) \<Rightarrow> (r, (stream @ ''-'' @ major @ ''.'' @ minor) # queried)))"

text \<open>Indexing the nil slice of a string that does not match panics.\<close>

definition getImageFromVersion :: "http_env \<Rightarrow> string \<Rightarrow> (error + string) \<times> string list" where
  "getImageFromVersion H entry =
     (case versionRegex_FindStringSubmatch entry of
        None \<Rightarrow> (Inl Panic, [])
      | Some res \<Rightarrow>
          (case queryStreams H (res ! 0) (res ! 1) (res ! 2) [] [''fast'', ''stable'', ''candidate''] of
             (Inl err, queried) \<Rightarrow> (Inl err, queried)
           | (Inr imageURL, queried) \<Rightarrow>
               if length imageURL = 0 then (Inl (VersionNotFound entry), queried)
               else (Inr imageURL, queried)))"

subsection \<open>From a watch list to the version map\<close>

record OCPVersionInfo =
  KernelVersion :: string
  RTKernelVersion :: string
  DTKImage :: string
  info_OSVersion :: string
  OSImage :: string
  ClusterVersion :: string

record selector =
  selector_Path :: string
  selector_Value :: string
  selector_Exclude :: bool

record watch =
  watch_Kind :: string
  watch_ApiVersion :: string
  watch_Namespace :: string
  watch_Name :: string
  watch_Path :: string
  watch_Selector :: "selector list"

text \<open>
  The collaborators of the resolver: the API client, the path extraction of package
  \<^verbatim>\<open>watcher\<close> (not among the sources), the registry and the HTTP client.  \<open>'o\<close> is the
  type of a retrieved object.
\<close>

record ('o, 'l) resolver =
  KubeClient_List :: "string \<Rightarrow> string \<Rightarrow> error + 'o list"
  KubeClient_Get :: "string \<Rightarrow> string \<Rightarrow> string \<Rightarrow> string \<Rightarrow> error + 'o"
  GetJSONPath :: "string \<Rightarrow> 'o \<Rightarrow> error + string list"
  Registry :: "'l registry"
  Http :: http_env

definition getAllResources ::
  "('o, 'l) resolver \<Rightarrow> string \<Rightarrow> string \<Rightarrow> string \<Rightarrow> string \<Rightarrow> error + 'o list" where
  "getAllResources r kind apiVersion namespace name =
     (if name = [] then KubeClient_List r kind apiVersion
      else (case KubeClient_Get r kind apiVersion namespace name of
              Inl err \<Rightarrow> Inl err
            | Inr obj \<Rightarrow> Inr [obj]))"

text \<open>The inner and the outer loop of \<^verbatim>\<open>filterResources\<close>; \<open>acc\<close> is
  \<open>filteredObjects\<close>.\<close>

fun filterObjects ::
  "('o, 'l) resolver \<Rightarrow> selector \<Rightarrow> 'o list \<Rightarrow> 'o list \<Rightarrow> error + 'o list" where
  "filterObjects r sel acc [] = Inr acc"
| "filterObjects r sel acc (obj # objs) =
     (case GetJSONPath r (selector_Path sel) obj of
        Inl err \<Rightarrow> Inl err
      | Inr candidates \<Rightarrow>
          filterObjects r sel
            (if (if selector_Exclude sel then \<not> (selector_Value sel \<in> set candidates)
                 else selector_Value sel \<in> set candidates)
             then acc @ [obj] else acc)
            objs)"

fun filterSelectors ::
  "('o, 'l) resolver \<Rightarrow> 'o list \<Rightarrow> 'o list \<Rightarrow> selector list \<Rightarrow> error + 'o list" where
  "filterSelectors r objs acc [] = Inr acc"
| "filterSelectors r objs acc (sel # sels) =
     (case filterObjects r sel acc objs of
        Inl err \<Rightarrow> Inl err
      | Inr acc' \<Rightarrow> filterSelectors r objs acc' sels)"

definition filterResources ::
  "('o, 'l) resolver \<Rightarrow> selector list \<Rightarrow> 'o list \<Rightarrow> error + 'o list" where
  "filterResources r selectors objs =
     (if length selectors = 0 then Inr objs else filterSelectors r objs [] selectors)"

definition getVersionInfoFromImage :: "'l registry \<Rightarrow> string \<Rightarrow> error + OCPVersionInfo" where
  "getVersionInfoFromImage reg entry =
     (case LastLayer reg entry of
        Inl err \<Rightarrow> Inl err
      | Inr manifestsLastLayer \<Rightarrow>
          (case ReleaseManifests reg manifestsLastLayer of
             Inl err \<Rightarrow> Inl err
           | Inr (version, dtkURL) \<Rightarrow>
               (case LastLayer reg dtkURL of
                  Inl err \<Rightarrow> Inl err
                | Inr dtkLastLayer \<Rightarrow>
                    (case ExtractToolkitRelease reg dtkLastLayer of
                       Inl err \<Rightarrow> Inl err
                     | Inr dtkEntry \<Rightarrow>
                         Inr \<lparr>KernelVersion = KernelFullVersion dtkEntry,
                              RTKernelVersion = RTKernelFullVersion dtkEntry,
                              DTKImage = dtkURL,
                              info_OSVersion = OSVersion dtkEntry,
                              OSImage = entry,
                              ClusterVersion = version\<rparr>))))"

text \<open>
  \<^verbatim>\<open>getOCPVersions\<close>, innermost loop first.  The body of the loop over the extracted
  strings classifies one string, resolves it to an image, walks the image and stores the
  result in the version map.
\<close>

definition resolveElement ::
  "('o, 'l) resolver \<Rightarrow> (string \<rightharpoonup> OCPVersionInfo) \<Rightarrow> string \<Rightarrow>
   error + (string \<rightharpoonup> OCPVersionInfo)" where
  "resolveElement r versionMap element =
     (case (if versionRegex_MatchString element then fst (getImageFromVersion (Http r) element)
            else if strings_Contains element ''@'' \<or> strings_Contains element '':''
            then Inr element
            else Inl (FormatError element)) of
        Inl err \<Rightarrow> Inl err
      | Inr img \<Rightarrow>
          (case getVersionInfoFromImage (Registry r) img of
             Inl err \<Rightarrow> Inl err
           | Inr info \<Rightarrow> Inr (versionMap(ClusterVersion info \<mapsto> info))))"

fun resolveElements ::
  "('o, 'l) resolver \<Rightarrow> (string \<rightharpoonup> OCPVersionInfo) \<Rightarrow> string list \<Rightarrow>
   error + (string \<rightharpoonup> OCPVersionInfo)" where
  "resolveElements r versionMap [] = Inr versionMap"
| "resolveElements r versionMap (element # elements) =
     (case resolveElement r versionMap element of
        Inl err \<Rightarrow> Inl err
      | Inr versionMap' \<Rightarrow> resolveElements r versionMap' elements)"

text \<open>The loop over the filtered objects: an object whose path extraction fails is
  logged and skipped.\<close>

fun resolveObjects ::
  "('o, 'l) resolver \<Rightarrow> string \<Rightarrow> (string \<rightharpoonup> OCPVersionInfo) \<Rightarrow> 'o list \<Rightarrow>
   error + (string \<rightharpoonup> OCPVersionInfo)" where
  "resolveObjects r path versionMap [] = Inr versionMap"
| "resolveObjects r path versionMap (obj # objs) =
     (case GetJSONPath r path obj of
        Inl err \<Rightarrow> resolveObjects r path versionMap objs
      | Inr result \<Rightarrow>
          (case resolveElements r versionMap result of
             Inl err \<Rightarrow> Inl err
           | Inr versionMap' \<Rightarrow> resolveObjects r path versionMap' objs))"

text \<open>The body of the loop over the watch list, and the loop.\<close>

definition resolveWatch ::
  "('o, 'l) resolver \<Rightarrow> (string \<rightharpoonup> OCPVersionInfo) \<Rightarrow> watch \<Rightarrow>
   error + (string \<rightharpoonup> OCPVersionInfo)" where
  "resolveWatch r versionMap resource =
     (case getAllResources r (watch_Kind resource) (watch_ApiVersion resource)
             (watch_Namespace resource) (watch_Name resource) of
        Inl err \<Rightarrow> if IsNotFound err then Inr versionMap else Inl err
      | Inr objs \<Rightarrow>
          (case filterResources r (watch_Selector resource) objs of
             Inl err \<Rightarrow> Inl err
           | Inr objs' \<Rightarrow> resolveObjects r (watch_Path resource) versionMap objs'))"

fun resolveWatches ::
  "('o, 'l) resolver \<Rightarrow> (string \<rightharpoonup> OCPVersionInfo) \<Rightarrow> watch list \<Rightarrow>
   error + (string \<rightharpoonup> OCPVersionInfo)" where
  "resolveWatches r versionMap [] = Inr versionMap"
| "resolveWatches r versionMap (resource # watchList) =
     (case resolveWatch r versionMap resource of
        Inl err \<Rightarrow> Inl err
      | Inr versionMap' \<Rightarrow> resolveWatches r versionMap' watchList)"

definition getOCPVersions ::
  "('o, 'l) resolver \<Rightarrow> watch list \<Rightarrow> error + (string \<rightharpoonup> OCPVersionInfo)" where
  "getOCPVersions r watchList = resolveWatches r Map.empty watchList"

subsection \<open>Update and delete lists of \<^verbatim>\<open>Reconcile\<close>\<close>

text \<open>
  The loop of \<^verbatim>\<open>Reconcile\<close> over \<^verbatim>\<open>resource.Status.Versions\<close>.  Go does not fix the
  order in which a map is ranged over, so the keys of the persisted status come as a list
  in the order of the iteration.  In the branch of a key that \<open>clusterVersions\<close> lacks,
  \<open>data\<close> is the zero value that the failed lookup produced.
\<close>

definition zeroOCPVersionInfo :: OCPVersionInfo where
  "zeroOCPVersionInfo =
     \<lparr>KernelVersion = [], RTKernelVersion = [], DTKImage = [], info_OSVersion = [],
      OSImage = [], ClusterVersion = []\<rparr>"

fun splitStatusVersions ::
  "(string \<rightharpoonup> OCPVersionInfo) \<Rightarrow> OCPVersionInfo list \<Rightarrow> OCPVersionInfo list \<Rightarrow> string list \<Rightarrow>
   OCPVersionInfo list \<times> OCPVersionInfo list" where
  "splitStatusVersions clusterVersions updateList deleteList [] = (updateList, deleteList)"
| "splitStatusVersions clusterVersions updateList deleteList (resourceVersion # rest) =
     (case clusterVersions resourceVersion of
        Some data \<Rightarrow> splitStatusVersions clusterVersions (updateList @ [data]) deleteList rest
      | None \<Rightarrow>
          splitStatusVersions clusterVersions updateList (deleteList @ [zeroOCPVersionInfo]) rest)"

definition deleteList :: "string list \<Rightarrow> (string \<rightharpoonup> OCPVersionInfo) \<Rightarrow> OCPVersionInfo list" where
  "deleteList statusVersions clusterVersions =
     snd (splitStatusVersions clusterVersions [] [] statusVersions)"

subsection \<open>An example cluster\<close>

text \<open>
  The upgrade graph lists version 4.12.5 in the channels \<open>fast\<close> and \<open>stable\<close> with
  different payloads and not in \<open>candidate\<close>; the registry knows the release image of
  the \<open>stable\<close> payload and its toolkit image.  A retrieved object is the list of strings
  found at the path \<open>.status.desired.version\<close>; no other path can be extracted.
\<close>

definition exampleHttp :: http_env where
  "exampleHttp =
     \<lparr>client_Do =
        (\<lambda>channel. if channel \<in> {''fast-4.12'', ''stable-4.12'', ''candidate-4.12''}
                   then Inr \<lparr>StatusCode = 200, Body = Inr channel\<rparr>
                   else Inr \<lparr>StatusCode = 404, Body = Inr []\<rparr>),
      json_Unmarshal =
        (\<lambda>data. if data = ''fast-4.12''
                then Inr [\<lparr>Version = ''4.12.4'', Payload = ''quay.io/old/release@sha256:000''\<rparr>,
                          \<lparr>Version = ''4.12.5'', Payload = ''quay.io/fast/release@sha256:aaa''\<rparr>]
                else if data = ''stable-4.12''
                then Inr [\<lparr>Version = ''4.12.5'', Payload = ''quay.io/stable/release@sha256:bbb''\<rparr>]
                else Inr [])\<rparr>"

definition releaseRegistry :: "string registry" where
  "releaseRegistry =
     \<lparr>LastLayer =
        (\<lambda>image. if image \<in> {''quay.io/stable/release@sha256:bbb'', ''quay.io/x/dtk@sha256:ccc''}
                 then Inr image else Inl (Other ''no such image'')),
      ReleaseManifests =
        (\<lambda>layer. if layer = ''quay.io/stable/release@sha256:bbb''
                 then Inr (''4.12.5'', ''quay.io/x/dtk@sha256:ccc'')
                 else Inl (Other ''no release manifest'')),
      ExtractToolkitRelease =
        (\<lambda>layer. if layer = ''quay.io/x/dtk@sha256:ccc''
                 then Inr \<lparr>ImageURL = [], KernelFullVersion = ''5.14.0-70.13.1.el9_0.x86_64'',
                           RTKernelFullVersion = [], OSVersion = ''9.0''\<rparr>
                 else Inl (Other ''no toolkit metadata'')),
      GetLayersDigests = (\<lambda>image. Inl (Other ''not used'')),
      GetLayerByDigest = (\<lambda>repo digest auth. Inl (Other ''not used''))\<rparr>"

definition exampleResolver :: "(string list, string) resolver" where
  "exampleResolver =
     \<lparr>KubeClient_List =
        (\<lambda>kind apiVersion.
           if kind = ''ClusterVersion'' then Inr [[''4.12.5'']]
           else if kind = ''Note'' then Inr [[''latest'']]
           else Inl (Other ''forbidden'')),
      KubeClient_Get =
        (\<lambda>kind apiVersion namespace name.
           if name = ''version'' then Inr [''4.12.5''] else Inl (NotFound name)),
      GetJSONPath =
        (\<lambda>path obj. if path = ''.status.desired.version'' then Inr obj
                    else Inl (Other ''path not found'')),
      Registry = releaseRegistry,
      Http = exampleHttp\<rparr>"

definition watchOf :: "string \<Rightarrow> string \<Rightarrow> string \<Rightarrow> watch" where
  "watchOf kind name path =
     \<lparr>watch_Kind = kind, watch_ApiVersion = ''config.openshift.io/v1'', watch_Namespace = [],
      watch_Name = name, watch_Path = path, watch_Selector = []\<rparr>"

text \<open>The version information that the example cluster resolves to.\<close>

definition info_4_12_5 :: OCPVersionInfo where
  "info_4_12_5 =
     \<lparr>KernelVersion = ''5.14.0-70.13.1.el9_0.x86_64'', RTKernelVersion = [],
      DTKImage = ''quay.io/x/dtk@sha256:ccc'', info_OSVersion = ''9.0'',
      OSImage = ''quay.io/stable/release@sha256:bbb'', ClusterVersion = ''4.12.5''\<rparr>"

section \<open>Properties of the reconciliation of a chart\<close>

lemma applyStates_append:
  assumes "map (prepareStep E specSet metadata nostate) done = map Inr applied"
    and "\<forall>i<length applied. Helmer_Run E (calls @ take i applied) (applied ! i) = None"
  shows "applyStates E specSet metadata nostate result calls (done @ ys) =
         applyStates E specSet metadata nostate (result @ map Name done) (calls @ applied) ys"
  using assms
proof (induction "done" arbitrary: result calls applied)
  case Nil
  then show ?case by simp
next
  case (Cons d ds)
  from Cons.prems(1) obtain a as where app: "applied = a # as"
    and pa: "prepareStep E specSet metadata nostate d = Inr a"
    and pas: "map (prepareStep E specSet metadata nostate) ds = map Inr as"
    by (cases applied) auto
  from Cons.prems(2) app have r0: "Helmer_Run E calls a = None"
    by fastforce
  have rs: "\<forall>i<length as. Helmer_Run E ((calls @ [a]) @ take i as) (as ! i) = None"
  proof (intro allI impI)
    fix i assume "i < length as"
    with Cons.prems(2) app
    have "Helmer_Run E (calls @ take (Suc i) (a # as)) ((a # as) ! Suc i) = None"
      by (metis Suc_less_eq length_Cons)
    then show "Helmer_Run E ((calls @ [a]) @ take i as) (as ! i) = None" by simp
  qed
  from Cons.IH [OF pas rs, of "result @ [Name d]"] pa r0 app
  show ?case by simp
qed

lemma set_alreadyReconciled:
  "set (alreadyReconciled valid reconciledInput ts) =
   set reconciledInput \<inter> Name ` {t \<in> set ts. valid (Name t)}"
  by (auto simp: alreadyReconciled_def)

text \<open>
  C1 (as amended).  When every state unit of the loaded bundle is listed in the supplied
  reconciled set, the pass hands no working bundle to the templating collaborator (the
  trace of applies is empty), reports no error, and returns the empty list of units, which
  the caller stores as a complete status; it does not return the supplied set.
\<close>

theorem reconcileChart_complete_no_apply:
  assumes "Helmer_Load E = Inr c"
    and "\<forall>t\<in>set (Templates c). Assets_ValidStateName E (Name t) \<longrightarrow> Name t \<in> set reconciledInput"
  shows "reconcileChart E specSet metadata reconciledInput = ([], None, [])
       \<and> Complete (statusOf (fst (reconcileChart E specSet metadata reconciledInput)))"
proof -
  from assms(2) have "stateYAMLS (Assets_ValidStateName E) reconciledInput (Templates c) = []"
    by (auto simp: stateYAMLS_def filter_empty_conv)
  with assms(1) show ?thesis
    by (simp add: reconcileChart_def statusOf_def)
qed

theorem reconcileChart_complete_no_apply_witness:
  "reconcileChart (unitsEnv []) () () [''10-a'', ''20-b'', ''30-c'', ''40-d''] = ([], None, [])
   \<and> Complete (statusOf (fst (reconcileChart (unitsEnv []) () () [''10-a'', ''20-b'', ''30-c'', ''40-d''])))"
  using reconcileChart_complete_no_apply [of "unitsEnv []" unitsChart "[''10-a'', ''20-b'', ''30-c'', ''40-d'']" "()" "()"]
  by (simp add: unitsEnv_def unitsChart_def statusOf_def)

text \<open>
  C1 as stated fails: with the four state units all listed as reconciled, the pass
  returns the empty list, not the supplied set of units.
\<close>

theorem reconcileChart_complete_counterexample:
  "fst (reconcileChart (unitsEnv []) () () [''10-a'', ''20-b'', ''30-c'', ''40-d'']) = []
   \<and> set (fst (reconcileChart (unitsEnv []) () () [''10-a'', ''20-b'', ''30-c'', ''40-d'']))
       \<noteq> set [''10-a'', ''20-b'', ''30-c'', ''40-d'']"
  by (simp add: reconcileChart_def unitsEnv_def unitsChart_def stateYAMLS_def
      alreadyReconciled_def nostateTemplates_def)

text \<open>
  C6 (as amended).  Let the state units still to apply, sorted by name, be \<open>done\<close>
  followed by \<open>y\<close> and \<open>rest\<close>.  If the units of \<open>done\<close> are prepared and applied
  successfully one after the other (\<open>applied\<close> are their working bundles) and unit \<open>y\<close>
  then fails, in its preparation or in its apply, the pass returns that error at once:
  the trace of applies ends with \<open>y\<close> and no unit of \<open>rest\<close> is attempted.  The names
  returned are the names of the state units of the bundle that the supplied set lists,
  followed by the names of \<open>done\<close>; a supplied name that is not a state unit of the
  loaded bundle is not returned.
\<close>

theorem reconcileChart_abort_keeps_progress:
  assumes "Helmer_Load E = Inr c"
    and "valid = Assets_ValidStateName E"
    and "nostate = c\<lparr>Templates := nostateTemplates valid (Templates c)\<rparr>"
    and "sort_key Name (stateYAMLS valid reconciledInput (Templates c)) = done @ y # rest"
    and "map (prepareStep E specSet metadata nostate) done = map Inr applied"
    and "\<forall>i<length applied. Helmer_Run E (take i applied) (applied ! i) = None"
    and "(prepareStep E specSet metadata nostate y = Inl err \<and> tr = applied) \<or>
         (\<exists>x. prepareStep E specSet metadata nostate y = Inr x \<and>
              Helmer_Run E applied x = Some err \<and> tr = applied @ [x])"
  shows "reconcileChart E specSet metadata reconciledInput =
           (alreadyReconciled valid reconciledInput (Templates c) @ map Name done, Some err, tr)
       \<and> set (fst (reconcileChart E specSet metadata reconciledInput)) =
           (set reconciledInput \<inter> Name ` {t \<in> set (Templates c). valid (Name t)}) \<union> Name ` set done"
proof -
  let ?already = "alreadyReconciled valid reconciledInput (Templates c)"
  have "reconcileChart E specSet metadata reconciledInput =
        applyStates E specSet metadata nostate ?already [] (done @ y # rest)"
    using assms(1-4) by (simp add: reconcileChart_def)
  also have "\<dots> = applyStates E specSet metadata nostate (?already @ map Name done)
                      ([] @ applied) (y # rest)"
    by (rule applyStates_append) (use assms(5,6) in simp_all)
  also have "\<dots> = (?already @ map Name done, Some err, tr)"
    using assms(7) by auto
  finally have eq: "reconcileChart E specSet metadata reconciledInput =
                    (?already @ map Name done, Some err, tr)" .
  then show ?thesis
    by (simp add: set_alreadyReconciled)
qed

theorem reconcileChart_abort_keeps_progress_witness:
  "reconcileChart (unitsEnv [''30-c'']) () () [''10-a''] =
     ([''10-a'', ''20-b''], Some (Other ''apply failed''),
      [\<lparr>Templates = [\<lparr>Name = ''common'', Data = ''r''\<rparr>, \<lparr>Name = ''20-b'', Data = ''b''\<rparr>], Values = ()\<rparr>,
       \<lparr>Templates = [\<lparr>Name = ''common'', Data = ''r''\<rparr>, \<lparr>Name = ''30-c'', Data = ''c''\<rparr>], Values = ()\<rparr>])
   \<and> set (fst (reconcileChart (unitsEnv [''30-c'']) () () [''10-a''])) = {''10-a'', ''20-b''}"
  using reconcileChart_abort_keeps_progress
    [where E = "unitsEnv [''30-c'']" and c = unitsChart
       and valid = "\<lambda>n. n \<noteq> [] \<and> hd n \<in> set ''0123456789''"
       and nostate = "\<lparr>Templates = [\<lparr>Name = ''common'', Data = ''r''\<rparr>], Values = ()\<rparr>"
       and reconciledInput = "[''10-a'']"
       and ?done = "[\<lparr>Name = ''20-b'', Data = ''b''\<rparr>]"
       and y = "\<lparr>Name = ''30-c'', Data = ''c''\<rparr>"
       and rest = "[\<lparr>Name = ''40-d'', Data = ''d''\<rparr>]"
       and specSet = "()" and metadata = "()"
       and applied = "[\<lparr>Templates = [\<lparr>Name = ''common'', Data = ''r''\<rparr>, \<lparr>Name = ''20-b'', Data = ''b''\<rparr>], Values = ()\<rparr>]"
       and err = "Other ''apply failed''"
       and tr = "[\<lparr>Templates = [\<lparr>Name = ''common'', Data = ''r''\<rparr>, \<lparr>Name = ''20-b'', Data = ''b''\<rparr>], Values = ()\<rparr>,
                  \<lparr>Templates = [\<lparr>Name = ''common'', Data = ''r''\<rparr>, \<lparr>Name = ''30-c'', Data = ''c''\<rparr>], Values = ()\<rparr>]"]
  by (simp add: unitsEnv_def unitsChart_def stateYAMLS_def alreadyReconciled_def
      nostateTemplates_def prepareStep_def)

text \<open>
  C6 as stated fails where the supplied set names a unit that the loaded bundle does not
  carry: with \<open>10-a\<close> and \<open>05-x\<close> supplied and \<open>20-b\<close> failing, the returned names are
  \<open>10-a\<close> alone, not both supplied names.
\<close>

theorem reconcileChart_abort_counterexample:
  "fst (reconcileChart (unitsEnv [''20-b'']) () () [''10-a'', ''05-x'']) = [''10-a'']
   \<and> set (fst (reconcileChart (unitsEnv [''20-b'']) () () [''10-a'', ''05-x'']))
       \<noteq> set [''10-a'', ''05-x''] \<union> {}"
  by (simp add: reconcileChart_def unitsEnv_def unitsChart_def stateYAMLS_def
      alreadyReconciled_def nostateTemplates_def prepareStep_def)

text \<open>
  The scenario of the specification: \<open>10-a\<close> supplied, \<open>20-b\<close> fails; the returned
  names are \<open>10-a\<close> alone and the only apply attempted is the one of \<open>20-b\<close>.
\<close>

lemma reconcileChart_resumption_example:
  "reconcileChart (unitsEnv [''20-b'']) () () [''10-a''] =
     ([''10-a''], Some (Other ''apply failed''),
      [\<lparr>Templates = [\<lparr>Name = ''common'', Data = ''r''\<rparr>, \<lparr>Name = ''20-b'', Data = ''b''\<rparr>], Values = ()\<rparr>])"
  by (simp add: reconcileChart_def unitsEnv_def unitsChart_def stateYAMLS_def
      alreadyReconciled_def nostateTemplates_def prepareStep_def)

section \<open>Properties of the correlation\<close>

lemma OSVersion_normalizeArch: "OSVersion (normalizeArch goarch d) = OSVersion d"
  by (simp add: normalizeArch_def)

lemma matchKey_cases:
  "matchKey info match key osDTK dtk =
     (case info key of None \<Rightarrow> Inr (info, match)
      | Some nv \<Rightarrow> if nv_OSVersion nv \<noteq> osDTK
          then Inl (Exit (Other (''OSVersion mismatch NFD: '' @ nv_OSVersion nv @ '' vs. DTK: '' @ osDTK)))
          else Inr (info(key \<mapsto> nv\<lparr>nv_OSVersion := OSVersion dtk, DriverToolkit := dtk\<rparr>), True))"
  by (simp add: matchKey_def split: option.splits)

text \<open>
  C8.  Let \<open>dtk\<close> be the toolkit release as \<^verbatim>\<open>UpdateInfo\<close> matches it (image URL set,
  architecture normalised).  If its kernel or RT-kernel version is a key of the node map
  and the \<open>osVersion\<close> that the node map stores under that key differs from the
  toolkit's, \<^verbatim>\<open>UpdateInfo\<close> ends in the fatal exit (the specification's
  \<open>ConsistencyError\<close>) and returns no map.  Whenever it returns a map, every matched
  key held a record whose \<open>osVersion\<close> was equal to the toolkit's, that record is the
  old one with the toolkit release attached, and every other key is unchanged.
\<close>

theorem UpdateInfo_consistency:
  assumes "dtk = normalizeArch goarch (dtk0\<lparr>ImageURL := imageURL\<rparr>)"
  shows "(\<forall>key nv. (key = KernelFullVersion dtk \<or> key = RTKernelFullVersion dtk) \<and>
             info key = Some nv \<and> nv_OSVersion nv \<noteq> OSVersion dtk0 \<longrightarrow>
             (\<exists>e. UpdateInfo goarch info dtk0 imageURL = Inl (Exit e)))
       \<and> (\<forall>info' key nv. UpdateInfo goarch info dtk0 imageURL = Inr info' \<and>
             (key = KernelFullVersion dtk \<or> key = RTKernelFullVersion dtk) \<and> info key = Some nv \<longrightarrow>
             nv_OSVersion nv = OSVersion dtk0 \<and>
             info' key = Some (nv\<lparr>nv_OSVersion := OSVersion dtk0, DriverToolkit := dtk\<rparr>))
       \<and> (\<forall>info' key. UpdateInfo goarch info dtk0 imageURL = Inr info' \<and>
             key \<noteq> KernelFullVersion dtk \<and> key \<noteq> RTKernelFullVersion dtk \<longrightarrow>
             info' key = info key)"
proof -
  have os: "OSVersion dtk = OSVersion dtk0"
    using assms by (simp add: OSVersion_normalizeArch)
  show ?thesis
    unfolding UpdateInfo_def Let_def assms [symmetric] matchKey_cases os
    by (auto split: option.splits if_splits)
qed

theorem UpdateInfo_consistency_witness:
  "(\<exists>e. UpdateInfo ''amd64'' nodes8 (dtk8 ''8.5'') ''img'' = Inl (Exit e))
   \<and> (\<exists>info'. UpdateInfo ''amd64'' nodes8 (dtk8 ''8.4'') ''img'' = Inr info'
         \<and> info' ''4.18.0-305.el8.x86_64'' =
             Some (node8\<lparr>nv_OSVersion := ''8.4'',
                          DriverToolkit := normalizeArch ''amd64'' ((dtk8 ''8.4'')\<lparr>ImageURL := ''img''\<rparr>)\<rparr>))"
proof -
  let ?D = "\<lambda>os. normalizeArch ''amd64'' ((dtk8 os)\<lparr>ImageURL := ''img''\<rparr>)"
  let ?k = "''4.18.0-305.el8.x86_64''"
  have k: "?k = KernelFullVersion (?D os)" for os
    by (simp add: dtk8_def normalizeArch_def runningArch_def)
  have n: "nodes8 ?k = Some node8"
    by (simp add: nodes8_def)
  have "(?k = KernelFullVersion (?D ''8.5'') \<or> ?k = RTKernelFullVersion (?D ''8.5'')) \<and>
        nodes8 ?k = Some node8 \<and> nv_OSVersion node8 \<noteq> OSVersion (dtk8 ''8.5'')"
    using k [of "''8.5''"] n by (simp add: node8_def dtk8_def)
  with UpdateInfo_consistency [where goarch = "''amd64''" and ?dtk0.0 = "dtk8 ''8.5''"
        and imageURL = "''img''" and info = nodes8, OF refl]
  have a: "\<exists>e. UpdateInfo ''amd64'' nodes8 (dtk8 ''8.5'') ''img'' = Inl (Exit e)"
    by blast
  have "\<exists>info'. UpdateInfo ''amd64'' nodes8 (dtk8 ''8.4'') ''img'' = Inr info'"
    by (simp add: UpdateInfo_def matchKey_def nodes8_def node8_def dtk8_def normalizeArch_def
        runningArch_def Let_def)
  then obtain info' where ok: "UpdateInfo ''amd64'' nodes8 (dtk8 ''8.4'') ''img'' = Inr info'" ..
  have "UpdateInfo ''amd64'' nodes8 (dtk8 ''8.4'') ''img'' = Inr info' \<and>
        (?k = KernelFullVersion (?D ''8.4'') \<or> ?k = RTKernelFullVersion (?D ''8.4'')) \<and>
        nodes8 ?k = Some node8"
    using k [of "''8.4''"] n ok by simp
  with UpdateInfo_consistency [where goarch = "''amd64''" and ?dtk0.0 = "dtk8 ''8.4''"
        and imageURL = "''img''" and info = nodes8, OF refl]
  have "info' ?k = Some (node8\<lparr>nv_OSVersion := OSVersion (dtk8 ''8.4''), DriverToolkit := ?D ''8.4''\<rparr>)"
    by blast
  then have b: "info' ?k = Some (node8\<lparr>nv_OSVersion := ''8.4'', DriverToolkit := ?D ''8.4''\<rparr>)"
    by (simp add: dtk8_def)
  from a ok b show ?thesis by blast
qed

lemma strings_Contains_iff: "strings_Contains s t \<longleftrightarrow> (\<exists>p q. s = p @ t @ q)"
proof (induction s)
  case Nil
  then show ?case by auto
next
  case (Cons c s)
  show ?case
  proof
    assume "strings_Contains (c # s) t"
    then consider "prefix t (c # s)" | "strings_Contains s t" by auto
    then show "\<exists>p q. c # s = p @ t @ q"
    proof cases
      case 1
      then obtain q where "c # s = t @ q" by (auto simp: prefix_def)
      then have "c # s = [] @ t @ q" by simp
      then show ?thesis by blast
    next
      case 2
      with Cons.IH obtain p q where "s = p @ t @ q" by auto
      then have "c # s = (c # p) @ t @ q" by simp
      then show ?thesis by blast
    qed
  next
    assume "\<exists>p q. c # s = p @ t @ q"
    then obtain p q where pq: "c # s = p @ t @ q" by auto
    show "strings_Contains (c # s) t"
    proof (cases p)
      case Nil
      with pq have "prefix t (c # s)" by (auto simp: prefix_def)
      then show ?thesis by simp
    next
      case (Cons a p')
      with pq have "s = p' @ t @ q" by simp
      with Cons.IH have "strings_Contains s t" by blast
      then show ?thesis by simp
    qed
  qed
qed

lemma strings_Contains_appended: "strings_Contains (k @ c # a) a"
proof -
  have "k @ c # a = (k @ [c]) @ a @ []" by simp
  then show ?thesis unfolding strings_Contains_iff by blast
qed

lemma normalizeArch_idem: "normalizeArch goarch (normalizeArch goarch dtk) = normalizeArch goarch dtk"
  by (simp add: normalizeArch_def strings_Contains_appended)

lemma normalizeArch_ImageURL:
  "normalizeArch goarch (dtk\<lparr>ImageURL := u\<rparr>) = (normalizeArch goarch dtk)\<lparr>ImageURL := u\<rparr>"
  by (simp add: normalizeArch_def)

text \<open>
  C9 (as amended).  The suffix \<open>.\<close> plus the canonical architecture name (\<open>amd64\<close>
  becomes \<open>x86_64\<close>, any other name is kept) is appended to the kernel and to the
  RT-kernel version exactly when the canonical name does not occur anywhere in the
  kernel version string; the RT-kernel string is not inspected.  Normalising a
  normalised release changes nothing, and correlating a normalised release gives the
  same result as correlating the original one, so the suffix is not appended a second
  time by a repeated call.
\<close>

theorem normalizeArch_once:
  "KernelFullVersion (normalizeArch goarch dtk) =
     (if strings_Contains (KernelFullVersion dtk) (runningArch goarch) then KernelFullVersion dtk
      else KernelFullVersion dtk @ ''.'' @ runningArch goarch)
   \<and> RTKernelFullVersion (normalizeArch goarch dtk) =
     (if strings_Contains (KernelFullVersion dtk) (runningArch goarch) then RTKernelFullVersion dtk
      else RTKernelFullVersion dtk @ ''.'' @ runningArch goarch)
   \<and> runningArch goarch = (if goarch = ''amd64'' then ''x86_64'' else goarch)
   \<and> normalizeArch goarch (normalizeArch goarch dtk) = normalizeArch goarch dtk
   \<and> UpdateInfo goarch info (normalizeArch goarch dtk) imageURL = UpdateInfo goarch info dtk imageURL"
proof -
  have "normalizeArch goarch ((normalizeArch goarch dtk)\<lparr>ImageURL := imageURL\<rparr>) =
        normalizeArch goarch (dtk\<lparr>ImageURL := imageURL\<rparr>)"
    by (simp add: normalizeArch_ImageURL normalizeArch_idem)
  moreover have "OSVersion (normalizeArch goarch dtk) = OSVersion dtk"
    by (simp add: normalizeArch_def)
  ultimately have "UpdateInfo goarch info (normalizeArch goarch dtk) imageURL =
                   UpdateInfo goarch info dtk imageURL"
    by (simp add: UpdateInfo_def)
  then show ?thesis
    by (simp add: normalizeArch_idem) (simp add: normalizeArch_def runningArch_def)
qed

theorem normalizeArch_once_witness:
  "KernelFullVersion (normalizeArch ''amd64'' (dtk8 ''8.4'')) = ''4.18.0-305.el8.x86_64''
   \<and> KernelFullVersion (normalizeArch ''amd64'' (normalizeArch ''amd64'' (dtk8 ''8.4''))) =
       ''4.18.0-305.el8.x86_64''"
  using normalizeArch_once [of "''amd64''" "dtk8 ''8.4''"]
  by (simp add: dtk8_def runningArch_def)

text \<open>
  C9 as stated fails.  A kernel version that contains the architecture name, but not as
  its suffix, is left without the suffix; and an RT-kernel version that already ends in
  the architecture name receives it a second time when the kernel version lacks it.
\<close>

theorem normalizeArch_suffix_counterexample:
  "\<not> suffix ''x86_64'' ''4.18.0-305.el8.x86_64+debug''
   \<and> KernelFullVersion (normalizeArch ''amd64''
         \<lparr>ImageURL = [], KernelFullVersion = ''4.18.0-305.el8.x86_64+debug'',
          RTKernelFullVersion = [], OSVersion = ''8.4''\<rparr>) = ''4.18.0-305.el8.x86_64+debug''
   \<and> suffix ''x86_64'' ''4.18.0-305.rt7.72.el8.x86_64''
   \<and> RTKernelFullVersion (normalizeArch ''amd64''
         \<lparr>ImageURL = [], KernelFullVersion = ''4.18.0-305.el8'',
          RTKernelFullVersion = ''4.18.0-305.rt7.72.el8.x86_64'', OSVersion = ''8.4''\<rparr>) =
       ''4.18.0-305.rt7.72.el8.x86_64.x86_64''"
  by (simp add: normalizeArch_def runningArch_def suffix_to_prefix)

section \<open>Properties of the preflight check\<close>

lemma scanLayers_no_error: "scanLayers R k repo auth ds = (verified, e, calls) \<Longrightarrow> e = None"
  by (induction ds arbitrary: verified e calls) (auto split: sum.splits prod.splits if_splits)

lemma scanLayers_skip:
  assumes "\<forall>x\<in>set skipped. \<exists>layer e. GetLayerByDigest R repo x auth = Inr layer \<and>
             ExtractToolkitRelease R layer = Inl e"
  shows "scanLayers R k repo auth (skipped @ ys) =
         (case scanLayers R k repo auth ys of
            (verified, e, calls) \<Rightarrow> (verified, e, map (GetLayerByDigestCall repo) skipped @ calls))"
  using assms by (induction skipped) (auto split: prod.splits)

text \<open>
  C2 (as amended).  For a DaemonSet that converts and declares a container, the check
  never reports an error.  When the enumeration of the layer digests of the image fails,
  the check answers \<open>false\<close> without an error, after that one registry access.  When
  the fetch of a layer fails, after all more recent layers were fetched and gave no
  toolkit metadata, the check answers \<open>false\<close> without an error as well, and the
  failed fetch is its last registry access.  The failure is logged, not returned.
\<close>

theorem daemonSetPreflightCheck_fetch_failure:
  assumes "FromUnstructured p (Object obj) = Inr ds"
    and "Containers ds = c0 # cs"
  shows "fst (snd (daemonSetPreflightCheck p obj k)) = None
       \<and> (\<forall>e. GetLayersDigests (registryAPI p) (Image c0) = Inl e \<longrightarrow>
            daemonSetPreflightCheck p obj k = (False, None, [GetLayersDigestsCall (Image c0)]))
       \<and> (\<forall>repo auth older d newer e.
            GetLayersDigests (registryAPI p) (Image c0) = Inr (repo, older @ d # newer, auth) \<and>
            (\<forall>x\<in>set newer. \<exists>layer e'. GetLayerByDigest (registryAPI p) repo x auth = Inr layer \<and>
                 ExtractToolkitRelease (registryAPI p) layer = Inl e') \<and>
            GetLayerByDigest (registryAPI p) repo d auth = Inl e \<longrightarrow>
            daemonSetPreflightCheck p obj k =
              (False, None,
               GetLayersDigestsCall (Image c0) # map (GetLayerByDigestCall repo) (rev newer)
                 @ [GetLayerByDigestCall repo d]))"
proof (intro conjI allI impI)
  show "fst (snd (daemonSetPreflightCheck p obj k)) = None"
    using assms
    by (auto simp: daemonSetPreflightCheck_def split: sum.splits prod.splits
        dest: scanLayers_no_error)
next
  fix e assume "GetLayersDigests (registryAPI p) (Image c0) = Inl e"
  with assms show "daemonSetPreflightCheck p obj k = (False, None, [GetLayersDigestsCall (Image c0)])"
    by (simp add: daemonSetPreflightCheck_def)
next
  fix repo auth older d newer e
  assume a: "GetLayersDigests (registryAPI p) (Image c0) = Inr (repo, older @ d # newer, auth) \<and>
            (\<forall>x\<in>set newer. \<exists>layer e'. GetLayerByDigest (registryAPI p) repo x auth = Inr layer \<and>
                 ExtractToolkitRelease (registryAPI p) layer = Inl e') \<and>
            GetLayerByDigest (registryAPI p) repo d auth = Inl e"
  then have sk: "\<forall>x\<in>set (rev newer). \<exists>layer e'. GetLayerByDigest (registryAPI p) repo x auth = Inr layer \<and>
                 ExtractToolkitRelease (registryAPI p) layer = Inl e'"
    by simp
  have "scanLayers (registryAPI p) k repo auth (rev (older @ d # newer)) =
        scanLayers (registryAPI p) k repo auth (rev newer @ d # rev older)"
    by simp
  also have "\<dots> = (False, None, map (GetLayerByDigestCall repo) (rev newer) @ [GetLayerByDigestCall repo d])"
    using a by (simp add: scanLayers_skip [OF sk])
  finally show "daemonSetPreflightCheck p obj k =
              (False, None,
               GetLayersDigestsCall (Image c0) # map (GetLayerByDigestCall repo) (rev newer)
                 @ [GetLayerByDigestCall repo d])"
    using assms a by (simp add: daemonSetPreflightCheck_def)
qed

text \<open>
  C10.  A DaemonSet whose pod template declares no container makes the check fail with
  an error.  Two DaemonSets that each declare at least one container and whose first
  containers name the same image get the same outcome (verdict, error and registry
  accesses), whatever their other containers are.
\<close>

theorem daemonSetPreflightCheck_first_container:
  "(\<forall>ds. FromUnstructured p (Object obj) = Inr ds \<and> Containers ds = [] \<longrightarrow>
      daemonSetPreflightCheck p obj k = (False, Some NoContainerData, []))
   \<and> (\<forall>obj' ds ds' c0 cs c0' cs'.
        FromUnstructured p (Object obj) = Inr ds \<and> Containers ds = c0 # cs \<and>
        FromUnstructured p (Object obj') = Inr ds' \<and> Containers ds' = c0' # cs' \<and>
        Image c0 = Image c0' \<longrightarrow>
        daemonSetPreflightCheck p obj k = daemonSetPreflightCheck p obj' k)"
  by (auto simp: daemonSetPreflightCheck_def cong: sum.case_cong)

lemma checkObjects_skip:
  assumes "\<forall>x\<in>set pre. Kind x \<noteq> ''BuildConfig'' \<and> Kind x \<noteq> ''DaemonSet''"
  shows "checkObjects p k (pre @ objs) = checkObjects p k objs"
  using assms by (induction pre) auto

text \<open>
  What the loop of \<^verbatim>\<open>handleYAMLsCheck\<close> computes: the first object of kind BuildConfig
  or DaemonSet, in rendered order, ends the loop.  A BuildConfig found first gives the
  verdict \<open>true\<close> without any registry access; a DaemonSet found first is checked,
  whatever follows it; without a DaemonSet no registry access is made.
\<close>

lemma handleYAMLsCheck_first_kind_decides:
  assumes "GetObjectsFromYAML p yamlsList = Inr (pre @ obj # post)"
    and "\<forall>x\<in>set pre. Kind x \<noteq> ''BuildConfig'' \<and> Kind x \<noteq> ''DaemonSet''"
  shows "(Kind obj = ''BuildConfig'' \<longrightarrow> handleYAMLsCheck p yamlsList k = (True, None, []))
       \<and> (Kind obj = ''DaemonSet'' \<longrightarrow>
            handleYAMLsCheck p yamlsList k =
              (case daemonSetPreflightCheck p obj k of
                 (verified, Some err, calls) \<Rightarrow> (False, Some err, calls)
               | (verified, None, calls) \<Rightarrow> (verified, None, calls)))
       \<and> (\<forall>objs. GetObjectsFromYAML p yamlsList = Inr objs \<and>
            (\<forall>x\<in>set objs. Kind x \<noteq> ''DaemonSet'') \<longrightarrow>
            handleYAMLsCheck p yamlsList k = (True, None, []))"
proof -
  have none: "checkObjects p k objs = (True, None, [])"
    if "\<forall>x\<in>set objs. Kind x \<noteq> ''DaemonSet''" for objs
    using that by (induction objs) auto
  show ?thesis
    using assms none
    by (auto simp: handleYAMLsCheck_def checkObjects_skip)
qed


lemmas example_defs =
  examplePreflight_def exampleRegistry_def dsObject_def otherObject_def dtk8_def

theorem daemonSetPreflightCheck_fetch_failure_witness:
  "daemonSetPreflightCheck examplePreflight (dsObject [''img-gone'']) ''4.18.0-305.el8'' =
     (False, None, [GetLayersDigestsCall ''img-gone''])
   \<and> daemonSetPreflightCheck examplePreflight (dsObject [''img-broken'']) ''4.18.0-305.el8'' =
     (False, None, [GetLayersDigestsCall ''img-broken'', GetLayerByDigestCall ''repo'' ''d2'',
                    GetLayerByDigestCall ''repo'' ''d0''])"
proof -
  have gone: "GetLayersDigests (registryAPI examplePreflight) ''img-gone'' =
              Inl (Other ''registry unreachable'')"
    by (simp add: example_defs)
  have "daemonSetPreflightCheck examplePreflight (dsObject [''img-gone'']) ''4.18.0-305.el8'' =
     (False, None, [GetLayersDigestsCall ''img-gone''])"
    using daemonSetPreflightCheck_fetch_failure
      [where p = examplePreflight and obj = "dsObject [''img-gone'']"
         and ds = "\<lparr>Containers = [\<lparr>ContainerName = ''c'', Image = ''img-gone''\<rparr>]\<rparr>"
         and ?c0.0 = "\<lparr>ContainerName = ''c'', Image = ''img-gone''\<rparr>" and cs = "[]"
         and k = "''4.18.0-305.el8''"] gone
    by (simp add: example_defs)
  moreover
  have broken: "GetLayersDigests (registryAPI examplePreflight) ''img-broken'' =
                  Inr (''repo'', [] @ ''d0'' # [''d2''], ''auth'')
                \<and> (\<forall>x\<in>set [''d2'']. \<exists>layer e'.
                      GetLayerByDigest (registryAPI examplePreflight) ''repo'' x ''auth'' = Inr layer \<and>
                      ExtractToolkitRelease (registryAPI examplePreflight) layer = Inl e')
                \<and> GetLayerByDigest (registryAPI examplePreflight) ''repo'' ''d0'' ''auth'' =
                  Inl (Other ''layer fetch failed'')"
    by (simp add: example_defs)
  have "daemonSetPreflightCheck examplePreflight (dsObject [''img-broken'']) ''4.18.0-305.el8'' =
     (False, None, GetLayersDigestsCall ''img-broken'' #
        map (GetLayerByDigestCall ''repo'') (rev [''d2'']) @ [GetLayerByDigestCall ''repo'' ''d0''])"
  proof -
    have h1: "FromUnstructured examplePreflight (Object (dsObject [''img-broken''])) =
              Inr \<lparr>Containers = [\<lparr>ContainerName = ''c'', Image = ''img-broken''\<rparr>]\<rparr>"
      by (simp add: example_defs)
    have h2: "Containers \<lparr>Containers = [\<lparr>ContainerName = ''c'', Image = ''img-broken''\<rparr>]\<rparr> =
              \<lparr>ContainerName = ''c'', Image = ''img-broken''\<rparr> # []"
      by simp
    from daemonSetPreflightCheck_fetch_failure [OF h1 h2, of "''4.18.0-305.el8''"] broken
    show ?thesis by (simp only: container.simps) blast
  qed
  ultimately show ?thesis by simp
qed

text \<open>
  C2 as stated fails: an image whose digests cannot be enumerated, and an image with a
  layer that cannot be fetched, both give the verdict \<open>false\<close> with no error.
\<close>

theorem daemonSetPreflightCheck_fetch_failure_counterexample:
  "GetLayersDigests (registryAPI examplePreflight) ''img-gone'' = Inl (Other ''registry unreachable'')
   \<and> daemonSetPreflightCheck examplePreflight (dsObject [''img-gone'']) ''4.18.0-305.el8'' =
       (False, None, [GetLayersDigestsCall ''img-gone''])
   \<and> GetLayerByDigest (registryAPI examplePreflight) ''repo'' ''d0'' ''auth'' =
       Inl (Other ''layer fetch failed'')
   \<and> daemonSetPreflightCheck examplePreflight (dsObject [''img-broken'']) ''4.18.0-305.el8'' =
       (False, None, [GetLayersDigestsCall ''img-broken'', GetLayerByDigestCall ''repo'' ''d2'',
                      GetLayerByDigestCall ''repo'' ''d0''])"
  by (simp add: daemonSetPreflightCheck_def example_defs)

theorem daemonSetPreflightCheck_first_container_witness:
  "daemonSetPreflightCheck examplePreflight (dsObject []) ''4.18.0-305.el8'' =
     (False, Some NoContainerData, [])
   \<and> daemonSetPreflightCheck examplePreflight (dsObject [''img-ok'', ''img-gone'']) ''4.18.0-305.el8'' =
     daemonSetPreflightCheck examplePreflight (dsObject [''img-ok'', ''img-broken'']) ''4.18.0-305.el8''"
proof -
  note T = daemonSetPreflightCheck_first_container
    [where p = examplePreflight and k = "''4.18.0-305.el8''"]
  have "FromUnstructured examplePreflight (Object (dsObject [])) = Inr \<lparr>Containers = []\<rparr> \<and>
        Containers \<lparr>Containers = []\<rparr> = []"
    by (simp add: example_defs)
  with T [where obj = "dsObject []"]
  have a: "daemonSetPreflightCheck examplePreflight (dsObject []) ''4.18.0-305.el8'' =
           (False, Some NoContainerData, [])"
    by blast
  let ?c = "\<lambda>i. \<lparr>ContainerName = ''c'', Image = i\<rparr>"
  have "FromUnstructured examplePreflight (Object (dsObject [''img-ok'', ''img-gone''])) =
          Inr \<lparr>Containers = [?c ''img-ok'', ?c ''img-gone'']\<rparr> \<and>
        Containers \<lparr>Containers = [?c ''img-ok'', ?c ''img-gone'']\<rparr> = ?c ''img-ok'' # [?c ''img-gone''] \<and>
        FromUnstructured examplePreflight (Object (dsObject [''img-ok'', ''img-broken''])) =
          Inr \<lparr>Containers = [?c ''img-ok'', ?c ''img-broken'']\<rparr> \<and>
        Containers \<lparr>Containers = [?c ''img-ok'', ?c ''img-broken'']\<rparr> = ?c ''img-ok'' # [?c ''img-broken''] \<and>
        Image (?c ''img-ok'') = Image (?c ''img-ok'')"
    by (simp add: example_defs)
  with T [where obj = "dsObject [''img-ok'', ''img-gone'']"]
  have b: "daemonSetPreflightCheck examplePreflight (dsObject [''img-ok'', ''img-gone'']) ''4.18.0-305.el8'' =
     daemonSetPreflightCheck examplePreflight (dsObject [''img-ok'', ''img-broken'']) ''4.18.0-305.el8''"
    by blast
  from a b show ?thesis by simp
qed

lemma handleYAMLsCheck_first_kind_decides_example:
  "handleYAMLsCheck examplePreflight ''build-first'' ''4.18.0-305.el8'' = (True, None, [])
   \<and> handleYAMLsCheck examplePreflight ''daemonset-first'' ''4.18.0-305.el8'' =
       (True, None, [GetLayersDigestsCall ''img-ok'', GetLayerByDigestCall ''repo'' ''d2'',
                     GetLayerByDigestCall ''repo'' ''d1''])"
proof -
  have pre: "\<forall>x\<in>set [otherObject ''ConfigMap'' :: daemonSet unstructured].
               Kind x \<noteq> ''BuildConfig'' \<and> Kind x \<noteq> ''DaemonSet''"
    by (simp add: otherObject_def)
  have b: "GetObjectsFromYAML examplePreflight ''build-first'' =
           Inr ([otherObject ''ConfigMap''] @ otherObject ''BuildConfig'' # [dsObject [''img-ok'']])"
    by (simp add: examplePreflight_def)
  have d: "GetObjectsFromYAML examplePreflight ''daemonset-first'' =
           Inr ([otherObject ''ConfigMap''] @ dsObject [''img-ok''] # [otherObject ''BuildConfig''])"
    by (simp add: examplePreflight_def)
  have "handleYAMLsCheck examplePreflight ''build-first'' ''4.18.0-305.el8'' = (True, None, [])"
    using handleYAMLsCheck_first_kind_decides [OF b pre, of "''4.18.0-305.el8''"]
    by (simp add: otherObject_def)
  moreover
  have "handleYAMLsCheck examplePreflight ''daemonset-first'' ''4.18.0-305.el8'' =
       (True, None, [GetLayersDigestsCall ''img-ok'', GetLayerByDigestCall ''repo'' ''d2'',
                     GetLayerByDigestCall ''repo'' ''d1''])"
    using handleYAMLsCheck_first_kind_decides [OF d pre, of "''4.18.0-305.el8''"]
    by (simp add: daemonSetPreflightCheck_def example_defs)
  ultimately show ?thesis by simp
qed

text \<open>
  C7.  The claim holds where the BuildConfig is rendered before the DaemonSet: the
  verification is skipped, the verdict is \<open>true\<close> and the registry is not accessed.
  The code departs from it where the same two objects are rendered in the other order:
  the loop ends at the DaemonSet before it has seen the BuildConfig, the image of the
  DaemonSet is walked and, for an upgrade kernel that the image was not built for, the
  verdict is \<open>false\<close>, although a BuildConfig is present.  The comment and the log line
  of the BuildConfig branch (no need to check the daemon set when a build config is
  present, image verification skipped) state the rule that this order breaks.
\<close>

theorem handleYAMLsCheck_daemonset_before_buildconfig:
  "GetObjectsFromYAML examplePreflight ''build-first'' =
     Inr [otherObject ''ConfigMap'', otherObject ''BuildConfig'', dsObject [''img-ok'']]
   \<and> handleYAMLsCheck examplePreflight ''build-first'' ''4.18.0-306.el8'' = (True, None, [])
   \<and> GetObjectsFromYAML examplePreflight ''daemonset-first'' =
     Inr [otherObject ''ConfigMap'', dsObject [''img-ok''], otherObject ''BuildConfig'']
   \<and> Kind (otherObject ''BuildConfig'' :: daemonSet unstructured) = ''BuildConfig''
   \<and> handleYAMLsCheck examplePreflight ''daemonset-first'' ''4.18.0-306.el8'' =
       (False, None, [GetLayersDigestsCall ''img-ok'', GetLayerByDigestCall ''repo'' ''d2'',
                      GetLayerByDigestCall ''repo'' ''d1''])"
  by (simp add: handleYAMLsCheck_def daemonSetPreflightCheck_def example_defs)

section \<open>Properties of the version resolution\<close>

lemma FindStringSubmatch_full:
  "versionRegex_FindStringSubmatch entry = Some res \<Longrightarrow> res ! 0 = entry"
  by (auto simp: versionRegex_FindStringSubmatch_def split: prod.splits list.splits if_splits)

lemma scanNodes_find:
  "scanNodes full nodes imageURL =
     (case find (\<lambda>v. Version v = full \<and> Payload v \<noteq> []) nodes of
        Some v \<Rightarrow> Payload v | None \<Rightarrow> imageURL)"
  by (simp add: scanNodes_def)

lemma find_payload: "find (\<lambda>v. Version v = full \<and> Payload v \<noteq> []) nodes = Some v \<Longrightarrow> Payload v \<noteq> []"
  by (auto simp: find_Some_iff)

text \<open>
  C4 (as amended).  For an entry that matches the version pattern, with \<open>major\<close> and
  \<open>minor\<close> its first two groups, and with all three graph queries answered: the
  channels \<open>fast\<close>, \<open>stable\<close> and \<open>candidate\<close> of \<open>major.minor\<close> are all queried,
  in that order, and the image returned is the payload of the first matching node (full
  version equal to the entry, payload not empty) of the last channel, in that order, that
  has a matching node; a match of a later channel replaces the match of an earlier one.
  If no channel has a matching node, the result is the error that the version was not
  found.
\<close>

theorem getImageFromVersion_last_channel_wins:
  assumes "versionRegex_FindStringSubmatch entry = Some res"
    and "major = res ! 1" and "minor = res ! 2"
    and "queryChannel H (''fast-'' @ major @ ''.'' @ minor) = Inr fastNodes"
    and "queryChannel H (''stable-'' @ major @ ''.'' @ minor) = Inr stableNodes"
    and "queryChannel H (''candidate-'' @ major @ ''.'' @ minor) = Inr candidateNodes"
    and "hit = find (\<lambda>v. Version v = entry \<and> Payload v \<noteq> [])"
  shows "getImageFromVersion H entry =
           (case hit candidateNodes of
              Some v \<Rightarrow> Inr (Payload v)
            | None \<Rightarrow>
                (case hit stableNodes of
                   Some v \<Rightarrow> Inr (Payload v)
                 | None \<Rightarrow>
                     (case hit fastNodes of
                        Some v \<Rightarrow> Inr (Payload v)
                      | None \<Rightarrow> Inl (VersionNotFound entry))),
            [''fast-'' @ major @ ''.'' @ minor, ''stable-'' @ major @ ''.'' @ minor,
             ''candidate-'' @ major @ ''.'' @ minor])"
proof -
  have full: "res ! 0 = entry"
    using assms(1) by (rule FindStringSubmatch_full)
  show ?thesis
    using assms(2-6) find_payload [of entry]
    by (auto simp: getImageFromVersion_def assms(1) full scanNodes_find assms(7)
        split: option.splits)
qed


lemmas resolver_defs =
  exampleResolver_def exampleHttp_def releaseRegistry_def watchOf_def

lemma FindStringSubmatch_4_12_5:
  "versionRegex_FindStringSubmatch ''4.12.5'' = Some [''4.12.5'', ''4'', ''12'', ''5'', [], []]"
  by (simp add: versionRegex_FindStringSubmatch_def cutAt_def numericIdentifier_def isDigit_def)

theorem getImageFromVersion_last_channel_wins_witness:
  "getImageFromVersion exampleHttp ''4.12.5'' =
     (Inr ''quay.io/stable/release@sha256:bbb'', [''fast-4.12'', ''stable-4.12'', ''candidate-4.12''])"
  using getImageFromVersion_last_channel_wins
    [OF FindStringSubmatch_4_12_5 refl refl, where H = exampleHttp
       and fastNodes = "[\<lparr>Version = ''4.12.4'', Payload = ''quay.io/old/release@sha256:000''\<rparr>,
                         \<lparr>Version = ''4.12.5'', Payload = ''quay.io/fast/release@sha256:aaa''\<rparr>]"
       and stableNodes = "[\<lparr>Version = ''4.12.5'', Payload = ''quay.io/stable/release@sha256:bbb''\<rparr>]"
       and candidateNodes = "[]", OF _ _ _ refl]
  by (simp add: queryChannel_def exampleHttp_def)

text \<open>
  C4 as stated fails: version 4.12.5 is matched in channel \<open>fast\<close> and again in channel
  \<open>stable\<close>; the image returned is the payload found in \<open>stable\<close>, not the one found
  first.
\<close>

theorem getImageFromVersion_first_match_counterexample:
  "queryChannel exampleHttp ''fast-4.12'' =
     Inr [\<lparr>Version = ''4.12.4'', Payload = ''quay.io/old/release@sha256:000''\<rparr>,
          \<lparr>Version = ''4.12.5'', Payload = ''quay.io/fast/release@sha256:aaa''\<rparr>]
   \<and> fst (getImageFromVersion exampleHttp ''4.12.5'') = Inr ''quay.io/stable/release@sha256:bbb''
   \<and> fst (getImageFromVersion exampleHttp ''4.12.5'') \<noteq> Inr ''quay.io/fast/release@sha256:aaa''"
  by (simp add: getImageFromVersion_def FindStringSubmatch_4_12_5 queryChannel_def scanNodes_def
      exampleHttp_def)

lemma resolveElements_append:
  "resolveElements r m (pre @ xs) =
     (case resolveElements r m pre of Inl e \<Rightarrow> Inl e | Inr m' \<Rightarrow> resolveElements r m' xs)"
  by (induction pre arbitrary: m) (auto split: sum.splits)

lemma resolveObjects_append:
  "resolveObjects r path m (pre @ objs) =
     (case resolveObjects r path m pre of Inl e \<Rightarrow> Inl e | Inr m' \<Rightarrow> resolveObjects r path m' objs)"
  by (induction pre arbitrary: m) (auto split: sum.splits)

lemma resolveWatches_append:
  "resolveWatches r m (pre @ ws) =
     (case resolveWatches r m pre of Inl e \<Rightarrow> Inl e | Inr m' \<Rightarrow> resolveWatches r m' ws)"
  by (induction pre arbitrary: m) (auto split: sum.splits)

lemma resolveElement_fails:
  assumes "(\<not> versionRegex_MatchString x \<and> \<not> strings_Contains x ''@'' \<and>
              \<not> strings_Contains x '':'' \<and> e = FormatError x)
         \<or> (versionRegex_MatchString x \<and> fst (getImageFromVersion (Http r) x) = Inl e)
         \<or> (\<exists>img. (versionRegex_MatchString x \<and> fst (getImageFromVersion (Http r) x) = Inr img
                    \<or> \<not> versionRegex_MatchString x \<and>
                      (strings_Contains x ''@'' \<or> strings_Contains x '':'') \<and> img = x)
                 \<and> getVersionInfoFromImage (Registry r) img = Inl e)"
  shows "resolveElement r m x = Inl e"
  using assms by (auto simp: resolveElement_def)

text \<open>
  C5 (as amended).  Let the watch specs before \<open>w\<close> resolve to the map \<open>m\<close>.  Then the
  resolution of the whole watch list returns an error and no map when the retrieval for
  \<open>w\<close> fails with an error other than not-found, when the filtering fails, or when, with
  all earlier objects and strings of \<open>w\<close> resolved, a string extracted at the declared
  path fails in its classification, its graph lookup or its image walk; the error
  returned is that error.  Two failures are recovered from: a not-found of the retrieval
  skips the watch spec, and a failed extraction at the declared path skips that object,
  the resolution going on with the objects and watch specs that follow.
\<close>

theorem getOCPVersions_error_policy:
  assumes "getOCPVersions r wpre = Inr m"
    and "retrieved = getAllResources r (watch_Kind w) (watch_ApiVersion w) (watch_Namespace w)
                       (watch_Name w)"
  shows "(\<forall>e. retrieved = Inl e \<and> \<not> IsNotFound e \<longrightarrow>
            getOCPVersions r (wpre @ w # wpost) = Inl e)
       \<and> (\<forall>e. retrieved = Inl e \<and> IsNotFound e \<longrightarrow>
            getOCPVersions r (wpre @ w # wpost) = resolveWatches r m wpost)
       \<and> (\<forall>objs e. retrieved = Inr objs \<and> filterResources r (watch_Selector w) objs = Inl e \<longrightarrow>
            getOCPVersions r (wpre @ w # wpost) = Inl e)
       \<and> (\<forall>objs opre obj opost m' epre x epost m'' e.
            retrieved = Inr objs \<and>
            filterResources r (watch_Selector w) objs = Inr (opre @ obj # opost) \<and>
            resolveObjects r (watch_Path w) m opre = Inr m' \<and>
            GetJSONPath r (watch_Path w) obj = Inr (epre @ x # epost) \<and>
            resolveElements r m' epre = Inr m'' \<and>
            ((\<not> versionRegex_MatchString x \<and> \<not> strings_Contains x ''@'' \<and>
                \<not> strings_Contains x '':'' \<and> e = FormatError x)
             \<or> (versionRegex_MatchString x \<and> fst (getImageFromVersion (Http r) x) = Inl e)
             \<or> (\<exists>img. (versionRegex_MatchString x \<and> fst (getImageFromVersion (Http r) x) = Inr img
                        \<or> \<not> versionRegex_MatchString x \<and>
                          (strings_Contains x ''@'' \<or> strings_Contains x '':'') \<and> img = x)
                     \<and> getVersionInfoFromImage (Registry r) img = Inl e)) \<longrightarrow>
            getOCPVersions r (wpre @ w # wpost) = Inl e)
       \<and> (\<forall>objs opre obj opost m' e.
            retrieved = Inr objs \<and>
            filterResources r (watch_Selector w) objs = Inr (opre @ obj # opost) \<and>
            resolveObjects r (watch_Path w) m opre = Inr m' \<and>
            GetJSONPath r (watch_Path w) obj = Inl e \<longrightarrow>
            getOCPVersions r (wpre @ w # wpost) =
              (case resolveObjects r (watch_Path w) m' opost of
                 Inl e' \<Rightarrow> Inl e'
               | Inr m2 \<Rightarrow> resolveWatches r m2 wpost))"
proof -
  have top: "getOCPVersions r (wpre @ w # wpost) =
             (case resolveWatch r m w of Inl e \<Rightarrow> Inl e | Inr m' \<Rightarrow> resolveWatches r m' wpost)"
    using assms(1) by (simp add: getOCPVersions_def resolveWatches_append)
  have c1: "getOCPVersions r (wpre @ w # wpost) = Inl e"
    if "retrieved = Inl e \<and> \<not> IsNotFound e" for e
    using that assms(2) by (simp add: top resolveWatch_def)
  have c2: "getOCPVersions r (wpre @ w # wpost) = resolveWatches r m wpost"
    if "retrieved = Inl e \<and> IsNotFound e" for e
    using that assms(2) by (simp add: top resolveWatch_def)
  have c3: "getOCPVersions r (wpre @ w # wpost) = Inl e"
    if "retrieved = Inr objs \<and> filterResources r (watch_Selector w) objs = Inl e" for objs e
    using that assms(2) by (simp add: top resolveWatch_def)
  have c4: "getOCPVersions r (wpre @ w # wpost) = Inl e"
    if h: "retrieved = Inr objs \<and>
            filterResources r (watch_Selector w) objs = Inr (opre @ obj # opost) \<and>
            resolveObjects r (watch_Path w) m opre = Inr m' \<and>
            GetJSONPath r (watch_Path w) obj = Inr (epre @ x # epost) \<and>
            resolveElements r m' epre = Inr m'' \<and>
            ((\<not> versionRegex_MatchString x \<and> \<not> strings_Contains x ''@'' \<and>
                \<not> strings_Contains x '':'' \<and> e = FormatError x)
             \<or> (versionRegex_MatchString x \<and> fst (getImageFromVersion (Http r) x) = Inl e)
             \<or> (\<exists>img. (versionRegex_MatchString x \<and> fst (getImageFromVersion (Http r) x) = Inr img
                        \<or> \<not> versionRegex_MatchString x \<and>
                          (strings_Contains x ''@'' \<or> strings_Contains x '':'') \<and> img = x)
                     \<and> getVersionInfoFromImage (Registry r) img = Inl e))"
    for objs opre obj opost m' epre x epost m'' e
  proof -
    from h have "resolveElement r m'' x = Inl e"
      by (intro resolveElement_fails) blast
    with h have "resolveElements r m' (epre @ x # epost) = Inl e"
      by (simp add: resolveElements_append)
    with h have "resolveObjects r (watch_Path w) m (opre @ obj # opost) = Inl e"
      by (simp add: resolveObjects_append)
    with h assms(2) show ?thesis
      by (simp add: top resolveWatch_def)
  qed
  have c5: "getOCPVersions r (wpre @ w # wpost) =
              (case resolveObjects r (watch_Path w) m' opost of
                 Inl e' \<Rightarrow> Inl e'
               | Inr m2 \<Rightarrow> resolveWatches r m2 wpost)"
    if h: "retrieved = Inr objs \<and>
            filterResources r (watch_Selector w) objs = Inr (opre @ obj # opost) \<and>
            resolveObjects r (watch_Path w) m opre = Inr m' \<and>
            GetJSONPath r (watch_Path w) obj = Inl e"
    for objs opre obj opost m' e
  proof -
    from h have "resolveObjects r (watch_Path w) m (opre @ obj # opost) =
                 resolveObjects r (watch_Path w) m' opost"
      by (simp add: resolveObjects_append)
    with h assms(2) show ?thesis
      by (simp add: top resolveWatch_def)
  qed
  from c1 c2 c3 c4 c5 show ?thesis by blast
qed


lemma getOCPVersions_example:
  "getOCPVersions exampleResolver [watchOf ''ClusterVersion'' [] ''.status.desired.version''] =
     Inr [''4.12.5'' \<mapsto> info_4_12_5]"
  by (simp add: getOCPVersions_def resolveWatch_def getAllResources_def filterResources_def
      resolveElement_def versionRegex_MatchString_def getImageFromVersion_def
      FindStringSubmatch_4_12_5 queryChannel_def scanNodes_def getVersionInfoFromImage_def
      resolver_defs info_4_12_5_def)

lemma not_version_latest: "\<not> versionRegex_MatchString ''latest''"
  by (simp add: versionRegex_MatchString_def versionRegex_FindStringSubmatch_def cutAt_def)

theorem getOCPVersions_error_policy_witness:
  "getOCPVersions exampleResolver
     [watchOf ''ClusterVersion'' [] ''.status.desired.version'',
      watchOf ''Secret'' [] ''.status.desired.version''] = Inl (Other ''forbidden'')
   \<and> getOCPVersions exampleResolver
     [watchOf ''ClusterVersion'' [] ''.status.desired.version'',
      watchOf ''Note'' [] ''.status.desired.version''] = Inl (FormatError ''latest'')
   \<and> getOCPVersions exampleResolver
     [watchOf ''ClusterVersion'' [] ''.status.desired.version'',
      watchOf ''ClusterVersion'' ''gone'' ''.status.desired.version''] =
       Inr [''4.12.5'' \<mapsto> info_4_12_5]
   \<and> getOCPVersions exampleResolver
     [watchOf ''ClusterVersion'' [] ''.status.desired.version'',
      watchOf ''ClusterVersion'' [] ''.spec.channel''] = Inr [''4.12.5'' \<mapsto> info_4_12_5]"
proof -
  let ?w1 = "watchOf ''ClusterVersion'' [] ''.status.desired.version''"
  let ?m = "[''4.12.5'' \<mapsto> info_4_12_5]"
  note T = getOCPVersions_error_policy [OF getOCPVersions_example refl, where wpost = "[]"]
  note T1 = T [THEN conjunct1, rule_format]
  note T2 = T [THEN conjunct2, THEN conjunct1, rule_format]
  note T4 = T [THEN conjunct2, THEN conjunct2, THEN conjunct2, THEN conjunct1, rule_format]
  note T5 = T [THEN conjunct2, THEN conjunct2, THEN conjunct2, THEN conjunct2, rule_format]
  have a: "getOCPVersions exampleResolver [?w1, watchOf ''Secret'' [] ''.status.desired.version''] =
           Inl (Other ''forbidden'')"
    using T1 [where w = "watchOf ''Secret'' [] ''.status.desired.version''"
                and e = "Other ''forbidden''"]
    by (simp add: getAllResources_def resolver_defs)
  have b: "getOCPVersions exampleResolver [?w1, watchOf ''Note'' [] ''.status.desired.version''] =
           Inl (FormatError ''latest'')"
    using T4 [where w = "watchOf ''Note'' [] ''.status.desired.version''"
                and objs = "[[''latest'']]" and opre = "[]" and obj = "[''latest'']" and opost = "[]"
                and m' = ?m and epre = "[]" and x = "''latest''" and epost = "[]" and m'' = ?m
                and e = "FormatError ''latest''"]
    by (simp add: getAllResources_def filterResources_def not_version_latest resolver_defs)
  have c: "getOCPVersions exampleResolver
             [?w1, watchOf ''ClusterVersion'' ''gone'' ''.status.desired.version''] = Inr ?m"
    using T2 [where w = "watchOf ''ClusterVersion'' ''gone'' ''.status.desired.version''"
                and e = "NotFound ''gone''"]
    by (simp add: getAllResources_def resolver_defs)
  have d: "getOCPVersions exampleResolver [?w1, watchOf ''ClusterVersion'' [] ''.spec.channel''] =
           Inr ?m"
    using T5 [where w = "watchOf ''ClusterVersion'' [] ''.spec.channel''"
                and objs = "[[''4.12.5'']]" and opre = "[]" and obj = "[''4.12.5'']" and opost = "[]"
                and m' = ?m and e = "Other ''path not found''"]
    by (simp add: getAllResources_def filterResources_def resolver_defs)
  from a b c d show ?thesis by simp
qed

text \<open>
  C5 as stated fails: when the extraction at the declared path fails for the only object
  of the only watch spec, the resolution returns the empty version map and no error.
\<close>

theorem getOCPVersions_extraction_counterexample:
  "GetJSONPath exampleResolver ''.spec.channel'' [''4.12.5''] = Inl (Other ''path not found'')
   \<and> getOCPVersions exampleResolver [watchOf ''ClusterVersion'' [] ''.spec.channel''] = Inr Map.empty"
  by (simp add: getOCPVersions_def resolveWatch_def getAllResources_def filterResources_def
      resolver_defs)

section \<open>Properties of the delete list\<close>

lemma splitStatusVersions_delete:
  "snd (splitStatusVersions cv upd del ks) = del @ replicate (length (filter (\<lambda>k. cv k = None) ks)) zeroOCPVersionInfo"
  by (induction ks arbitrary: upd del) (auto split: option.splits simp: replicate_append_same)

text \<open>
  C3.  With one persisted status, for version 4.9.0, and an empty resolved version map,
  the delete list holds one candidate, and it is the zero value: its cluster version is
  the empty string, not 4.9.0.  By the lemma above every delete candidate is the zero
  value, so the list tells how many versions are to be removed but not which.
\<close>

theorem deleteList_loses_version:
  "deleteList [''4.9.0''] Map.empty = [zeroOCPVersionInfo]
   \<and> map ClusterVersion (deleteList [''4.9.0''] Map.empty) = [[]]
   \<and> map ClusterVersion (deleteList [''4.9.0''] Map.empty) \<noteq> [''4.9.0'']"
  by (simp add: deleteList_def zeroOCPVersionInfo_def)

end
